theory Spec2Isabelle
  imports Complex_Main "HOL-Library.Word"
begin

section \<open>JavaScript values at the boundary\<close>

text \<open>
  The binding layer (\<^verbatim>\<open>src/wonderland.ts\<close>) is a single module whose functions share
  global variables and talk to a native runtime through imported functions on a linear
  heap. The model threads one \<open>state\<close> record through every function, logs each call of
  an imported native function in the order it is made, and takes the native runtime
  itself as a parameter. A function that can throw returns the error beside the state it
  leaves behind, since what it wrote before throwing stays written.

  Handles, pointers and byte sizes are JavaScript numbers holding integers: \<open>int\<close>.
  Numbers otherwise are \<open>real\<close>; what a store into a 32-bit float cell makes of one is
  a parameter. Field names of the source that start with an underscore lose it or get a
  short prefix, since an identifier cannot start with one.
\<close>

text \<open>
  What a handle field of a wrapper can hold: a number, or the \<^verbatim>\<open>undefined\<close> and
  \<^verbatim>\<open>null\<close> that the two \<^verbatim>\<open>destroy\<close> methods write into it.
\<close>

datatype handle_field = Id int | Undefined | Null

text \<open>A typed array over the heap's buffer: its byte offset and its element count.\<close>

record typed_view =
  byteOffset :: int
  view_length :: int

datatype elem_kind = Float32 | Uint8 | Uint16 | Uint32 | Int32

record Texture =
  t_id :: handle_field

text \<open>
  The values a script can assign to, or read from, a dynamic material property:
  a number, a plain array of numbers, a typed array over the heap, a texture wrapper,
  \<^verbatim>\<open>null\<close> or \<^verbatim>\<open>undefined\<close>.
\<close>

datatype jsvalue =
    JNum real
  | JArray "real list"
  | JView elem_kind typed_view
  | JTexture Texture
  | JNull
  | JUndefined

fun jsvalue_of_field :: "handle_field \<Rightarrow> jsvalue" where
  "jsvalue_of_field (Id n) = JNum (real_of_int n)"
| "jsvalue_of_field Undefined = JUndefined"
| "jsvalue_of_field Null = JNull"

text \<open>
  What reading a property of an object can give besides such a value: a string, a
  function (known by its name) or the prototype object.
\<close>

datatype property_value =
    JValue jsvalue
  | JString string
  | JFunction string
  | JPrototype string

datatype error = Error string | TypeError string | RangeError string

section \<open>The native runtime\<close>

text \<open>Every imported function the modelled code calls, with its arguments as passed.\<close>

datatype native_call =
    Malloc int
  | Free int
  | Wl_mesh_get_attribute_values int int int int int int int
  | Wl_mesh_set_attribute_values int int int int int int int
  | Wl_material_get_param_value jsvalue int int
  | Wl_material_set_param_value_uint jsvalue int jsvalue
  | Wl_material_set_param_value_float jsvalue int int jsvalue
  | Wl_material_get_shader jsvalue
  | Wl_component_remove handle_field handle_field
  | Wl_component_setActive handle_field handle_field bool
  | Wl_scene_remove_object handle_field
  | Wl_object_set_dirty handle_field

text \<open>
  The linear heap as the typed views \<^verbatim>\<open>HEAPU32\<close>, \<^verbatim>\<open>HEAPF32\<close>, \<^verbatim>\<open>HEAPU16\<close> and
  \<^verbatim>\<open>HEAPU8\<close> show it, each indexed by element, and the byte length of the buffer behind
  them. A signed 32-bit read is the two's complement reading of the \<^verbatim>\<open>HEAPU32\<close> cell;
  the overlap of the views of different width is not modelled.
\<close>

record heap =
  HEAPU32 :: "nat \<Rightarrow> 32 word"
  HEAPF32 :: "nat \<Rightarrow> real"
  HEAPU16 :: "nat \<Rightarrow> 16 word"
  HEAPU8 :: "nat \<Rightarrow> 8 word"
  heap_bytes :: nat

text \<open>
  What lies outside the module is a parameter. The native runtime: from the calls made
  so far, the call made now and the heap as the host left it, it gives the returned
  number and the heap as it leaves it. The rounding of a number to the 32-bit float that
  a \<^verbatim>\<open>Float32Array\<close> cell keeps. And \<^verbatim>\<open>UTF8ToString\<close>, the helper of the Emscripten
  runtime that reads a string at a pointer.
\<close>

record native =
  native_fn :: "native_call list \<Rightarrow> native_call \<Rightarrow> heap \<Rightarrow> int \<times> heap"
  Math_fround :: "real \<Rightarrow> real"
  UTF8ToString :: "heap \<Rightarrow> int \<Rightarrow> string"

section \<open>Reading and writing through typed views\<close>

text \<open>
  The element index of a view's first cell. Views are only ever built at offsets that are
  multiples of the element size.
\<close>

fun elem_bytes :: "elem_kind \<Rightarrow> int" where
  "elem_bytes Float32 = 4"
| "elem_bytes Uint8 = 1"
| "elem_bytes Uint16 = 2"
| "elem_bytes Uint32 = 4"
| "elem_bytes Int32 = 4"

definition cell_index :: "elem_kind \<Rightarrow> typed_view \<Rightarrow> nat \<Rightarrow> nat" where
  "cell_index k v i = nat (byteOffset v div elem_bytes k) + i"

text \<open>
  \<^verbatim>\<open>view[i]\<close>: the number in the cell, or \<^verbatim>\<open>undefined\<close> (\<open>None\<close>) past the end of
  the view.
\<close>

fun view_read :: "heap \<Rightarrow> elem_kind \<Rightarrow> typed_view \<Rightarrow> nat \<Rightarrow> real option" where
  "view_read h k v i =
     (if int i < view_length v then
        Some (case k of
                Float32 \<Rightarrow> HEAPF32 h (cell_index k v i)
              | Uint8 \<Rightarrow> real (unat (HEAPU8 h (cell_index k v i)))
              | Uint16 \<Rightarrow> real (unat (HEAPU16 h (cell_index k v i)))
              | Uint32 \<Rightarrow> real (unat (HEAPU32 h (cell_index k v i)))
              | Int32 \<Rightarrow> real_of_int (sint (HEAPU32 h (cell_index k v i))))
      else None)"

definition jsvalue_of_read :: "real option \<Rightarrow> jsvalue" where
  "jsvalue_of_read r = (case r of None \<Rightarrow> JUndefined | Some x \<Rightarrow> JNum x)"

text \<open>
  The integer a number becomes when stored in an integer cell: truncated towards zero,
  then wrapped by \<open>word_of_int\<close>.
\<close>

definition js_trunc :: "real \<Rightarrow> int" where
  "js_trunc x = (if 0 \<le> x then \<lfloor>x\<rfloor> else \<lceil>x\<rceil>)"

text \<open>
  \<^verbatim>\<open>view[i] = x\<close>: a store past the end of a typed array is ignored; a float cell
  keeps the number as rounded by \<open>fr\<close>, an integer cell the truncated number.
\<close>

fun view_write ::
  "(real \<Rightarrow> real) \<Rightarrow> elem_kind \<Rightarrow> typed_view \<Rightarrow> nat \<Rightarrow> real \<Rightarrow> heap \<Rightarrow> heap" where
  "view_write fr k v i x h =
     (if int i < view_length v then
        (case k of
           Float32 \<Rightarrow> h\<lparr>HEAPF32 := (HEAPF32 h)(cell_index k v i := fr x)\<rparr>
         | Uint8 \<Rightarrow> h\<lparr>HEAPU8 := (HEAPU8 h)(cell_index k v i := word_of_int (js_trunc x))\<rparr>
         | Uint16 \<Rightarrow> h\<lparr>HEAPU16 := (HEAPU16 h)(cell_index k v i := word_of_int (js_trunc x))\<rparr>
         | Uint32 \<Rightarrow> h\<lparr>HEAPU32 := (HEAPU32 h)(cell_index k v i := word_of_int (js_trunc x))\<rparr>
         | Int32 \<Rightarrow> h\<lparr>HEAPU32 := (HEAPU32 h)(cell_index k v i := word_of_int (js_trunc x))\<rparr>)
      else h)"

text \<open>
  \<^verbatim>\<open>new Float32Array(buffer, byteOffset, length)\<close> and its siblings: a
  \<^verbatim>\<open>RangeError\<close> when the offset is not a multiple of the element size, when the
  offset or the length is negative, or when the view does not fit in the buffer.
\<close>

definition new_typed_array :: "heap \<Rightarrow> elem_kind \<Rightarrow> int \<Rightarrow> int \<Rightarrow> error + typed_view" where
  "new_typed_array h k off len =
     (if off mod elem_bytes k \<noteq> 0 then
        Inl (RangeError ''start offset should be a multiple of the element size'')
      else if off < 0 \<or> int (heap_bytes h) < off then
        Inl (RangeError ''start offset is outside the bounds of the buffer'')
      else if len < 0 \<or> int (heap_bytes h) < off + len * elem_bytes k then
        Inl (RangeError ''invalid typed array length'')
      else Inr \<lparr>byteOffset = off, view_length = len\<rparr>)"

section \<open>Module state\<close>

record Object =
  objectId :: handle_field

datatype component_class =
    CollisionComponent | TextComponent | ViewComponent | MeshComponent
  | InputComponent | LightComponent | AnimationComponent | PhysXComponent
  | CustomComponent nat

record Component =
  c_manager :: handle_field
  c_id :: handle_field
  c_object :: "nat option"
  c_type :: "string option"
  c_class :: component_class

text \<open>
  Wrapper objects live in a store addressed by reference; the caches hold references, so
  that \<^verbatim>\<open>===\<close> on two wrappers is equality of their references.
  \<^verbatim>\<open>_tempMem\<close> is declared \<^verbatim>\<open>null\<close>; the model writes \<open>0\<close> for it, which
  the only test made on it (\<^verbatim>\<open>if (_tempMem)\<close>) does not tell apart.
\<close>

record state =
  tempMem :: int
  tempMemSize :: int
  tempMemFloat :: typed_view
  tempMemInt :: typed_view
  tempMemUint32 :: typed_view
  tempMemUint16 :: typed_view
  tempMemUint8 :: typed_view
  HEAP :: heap
  native_log :: "native_call list"
  ObjectCache :: "int \<rightharpoonup> nat"
  ComponentCache :: "int \<rightharpoonup> (int \<rightharpoonup> nat)"
  objects :: "nat \<Rightarrow> Object"
  components :: "nat \<Rightarrow> Component"
  next_ref :: nat

definition call_native :: "native \<Rightarrow> native_call \<Rightarrow> state \<Rightarrow> int \<times> state" where
  "call_native wl c s =
     (let (r, h) = native_fn wl (native_log s) c (HEAP s)
      in (r, s\<lparr>HEAP := h, native_log := native_log s @ [c]\<rparr>))"

section \<open>Temporary memory\<close>

text \<open>
  \<^verbatim>\<open>x >> k\<close> of JavaScript: the number is taken to a signed 32-bit integer and shifted
  arithmetically.
\<close>

definition js_shr :: "int \<Rightarrow> nat \<Rightarrow> int" where
  "js_shr x k = sint (signed_drop_bit k (word_of_int x :: 32 word))"

text \<open>\<^verbatim>\<open>Math.ceil(a / b)\<close> on integer-valued numbers.\<close>

definition Math_ceil_div :: "int \<Rightarrow> int \<Rightarrow> int" where
  "Math_ceil_div a b = \<lceil>real_of_int a / real_of_int b\<rceil>"

text \<open>
  \<^verbatim>\<open>updateTempMemory\<close>: five views over the block, built and assigned one after the
  other; the first constructor that throws ends it, the views assigned before it kept.
\<close>

definition updateTempMemory :: "state \<Rightarrow> error option \<times> state" where
  "updateTempMemory s0 =
     (case new_typed_array (HEAP s0) Float32 (tempMem s0) (js_shr (tempMemSize s0) 2) of
        Inl e \<Rightarrow> (Some e, s0)
      | Inr v1 \<Rightarrow>
     (let s1 = s0\<lparr>tempMemFloat := v1\<rparr> in
      case new_typed_array (HEAP s1) Int32 (tempMem s1) (js_shr (tempMemSize s1) 2) of
        Inl e \<Rightarrow> (Some e, s1)
      | Inr v2 \<Rightarrow>
     (let s2 = s1\<lparr>tempMemInt := v2\<rparr> in
      case new_typed_array (HEAP s2) Uint32 (tempMem s2) (js_shr (tempMemSize s2) 2) of
        Inl e \<Rightarrow> (Some e, s2)
      | Inr v3 \<Rightarrow>
     (let s3 = s2\<lparr>tempMemUint32 := v3\<rparr> in
      case new_typed_array (HEAP s3) Uint16 (tempMem s3) (js_shr (tempMemSize s3) 1) of
        Inl e \<Rightarrow> (Some e, s3)
      | Inr v4 \<Rightarrow>
     (let s4 = s3\<lparr>tempMemUint16 := v4\<rparr> in
      case new_typed_array (HEAP s4) Uint8 (tempMem s4) (tempMemSize s4) of
        Inl e \<Rightarrow> (Some e, s4)
      | Inr v5 \<Rightarrow> (None, s4\<lparr>tempMemUint8 := v5\<rparr>))))))"

text \<open>The \<^verbatim>\<open>console.log\<close> line of \<^verbatim>\<open>allocateTempMemory\<close> has no effect on the state.\<close>

definition allocateTempMemory :: "native \<Rightarrow> int \<Rightarrow> state \<Rightarrow> error option \<times> state" where
  "allocateTempMemory wl sz s0 =
     (let s1 = s0\<lparr>tempMemSize := sz\<rparr>;
          s2 = (if tempMem s1 \<noteq> 0 then snd (call_native wl (Free (tempMem s1)) s1) else s1);
          (p, s3) = call_native wl (Malloc (tempMemSize s2)) s2;
          s4 = s3\<lparr>tempMem := p\<rparr>
      in updateTempMemory s4)"

definition requireTempMem :: "native \<Rightarrow> int \<Rightarrow> state \<Rightarrow> error option \<times> state" where
  "requireTempMem wl sz s =
     (if tempMemSize s \<ge> sz then (None, s)
      else allocateTempMemory wl (Math_ceil_div sz 1024 * 1024) s)"

text \<open>
  \<^verbatim>\<open>init\<close>, as far as the modelled globals go (the scene, with the block it allocates
  for its ray hit, and the canvas are not modelled).
\<close>

definition init :: "native \<Rightarrow> state \<Rightarrow> error option \<times> state" where
  "init wl s =
     allocateTempMemory wl 1024 (s\<lparr>ComponentCache := Map.empty, ObjectCache := Map.empty\<rparr>)"

datatype buffer_type = Float32Array | Uint16Array

fun BYTES_PER_ELEMENT :: "buffer_type \<Rightarrow> int" where
  "BYTES_PER_ELEMENT Float32Array = 4"
| "BYTES_PER_ELEMENT Uint16Array = 2"

definition getTempBufferU16 ::
  "native \<Rightarrow> int \<Rightarrow> state \<Rightarrow> (error + typed_view) \<times> state" where
  "getTempBufferU16 wl count s0 =
     (case requireTempMem wl (count * 2) s0 of
        (Some e, s1) \<Rightarrow> (Inl e, s1)
      | (None, s1) \<Rightarrow> (Inr (tempMemUint16 s1), s1))"

definition getTempBufferF32 ::
  "native \<Rightarrow> int \<Rightarrow> state \<Rightarrow> (error + typed_view) \<times> state" where
  "getTempBufferF32 wl count s0 =
     (case requireTempMem wl (count * 4) s0 of
        (Some e, s1) \<Rightarrow> (Inl e, s1)
      | (None, s1) \<Rightarrow> (Inr (tempMemFloat s1), s1))"


section \<open>Mesh attribute accessor\<close>

datatype MeshAttribute =
    Position | Tangent | Normal | TextureCoordinate | Color
  | JointId | JointWeight | SecondaryJointId | SecondaryJointWeight

record MeshAttributeAccessor =
  a_attribute :: int
  a_offset :: int
  a_stride :: int
  a_formatSize :: int
  a_componentCount :: nat
  a_length :: nat
  a_bufferType :: buffer_type

text \<open>
  The constructor: the buffer type and the getter of temporary memory are chosen together
  from the attribute, so the model keeps the buffer type and derives the getter from it.
  The \<^verbatim>\<open>default\<close> branch, for a number outside the enum, has no counterpart.
\<close>

fun bufferType_of :: "MeshAttribute \<Rightarrow> buffer_type" where
  "bufferType_of JointId = Uint16Array"
| "bufferType_of SecondaryJointId = Uint16Array"
| "bufferType_of _ = Float32Array"

definition new_MeshAttributeAccessor :: "MeshAttribute \<Rightarrow> MeshAttributeAccessor" where
  "new_MeshAttributeAccessor ty =
     \<lparr>a_attribute = -1, a_offset = 0, a_stride = 0, a_formatSize = 0, a_componentCount = 0,
      a_length = 0, a_bufferType = bufferType_of ty\<rparr>"

fun tempBufferGetter ::
  "native \<Rightarrow> buffer_type \<Rightarrow> int \<Rightarrow> state \<Rightarrow> (error + typed_view) \<times> state" where
  "tempBufferGetter wl Float32Array = getTempBufferF32 wl"
| "tempBufferGetter wl Uint16Array = getTempBufferU16 wl"

fun elem_kind_of :: "buffer_type \<Rightarrow> elem_kind" where
  "elem_kind_of Float32Array = Float32"
| "elem_kind_of Uint16Array = Uint16"

text \<open>\<^verbatim>\<open>a % b\<close> on array lengths and counts: \<^verbatim>\<open>NaN\<close> (\<open>None\<close>) when \<open>b\<close> is zero.\<close>

definition js_rem :: "nat \<Rightarrow> nat \<Rightarrow> nat option" where
  "js_rem a b = (if b = 0 then None else Some (a mod b))"

text \<open>A number in a template string.\<close>

definition digit :: "nat \<Rightarrow> char" where
  "digit d = ''0123456789'' ! d"

fun string_of_nat :: "nat \<Rightarrow> string" where
  "string_of_nat n =
     (if n \<ge> 10 then string_of_nat (n div 10) @ [digit (n mod 10)] else [digit n])"

definition not_a_multiple_msg :: "nat \<Rightarrow> nat \<Rightarrow> string" where
  "not_a_multiple_msg len count =
     ''out.length, '' @ string_of_nat len
       @ '' is not a multiple of the attribute vector components, '' @ string_of_nat count"

text \<open>
  \<^verbatim>\<open>createArray\<close>: a fresh typed array of zeros, with its own buffer.
\<close>

definition createArray :: "MeshAttributeAccessor \<Rightarrow> nat \<Rightarrow> jsvalue list" where
  "createArray this count0 =
     (let count = (if count0 > a_length this then a_length this else count0)
      in replicate (count * a_componentCount this) (JNum 0))"

text \<open>
  \<^verbatim>\<open>get(index, out)\<close>. The array \<open>out\<close> has its own storage; \<open>None\<close> is the omitted
  argument. Every slot of \<open>out\<close> is assigned, so the result lists what the slots hold
  after the loop. A \<^verbatim>\<open>RangeError\<close> of growing the temporary memory passes through.
\<close>

definition MeshAttributeAccessor_get ::
  "native \<Rightarrow> MeshAttributeAccessor \<Rightarrow> int \<Rightarrow> jsvalue list option \<Rightarrow> state
     \<Rightarrow> (error + jsvalue list) \<times> state" where
  "MeshAttributeAccessor_get wl this index out_arg s0 =
     (let out = (case out_arg of None \<Rightarrow> createArray this 1 | Some xs \<Rightarrow> xs) in
      if js_rem (length out) (a_componentCount this) \<noteq> Some 0 then
        (Inl (Error (not_a_multiple_msg (length out) (a_componentCount this))), s0)
      else
        (case tempBufferGetter wl (a_bufferType this) (int (length out)) s0 of
           (Inl e, s1) \<Rightarrow> (Inl e, s1)
         | (Inr dest, s1) \<Rightarrow>
             (let bytesPerElt = BYTES_PER_ELEMENT (a_bufferType this);
                  bytes = bytesPerElt * int (length out);
                  destFormatSize = int (a_componentCount this) * bytesPerElt;
                  (_, s2) = call_native wl
                              (Wl_mesh_get_attribute_values (a_attribute this)
                                 (a_formatSize this) (a_offset this + index * a_stride this)
                                 (a_stride this) destFormatSize (byteOffset dest) bytes) s1
              in (Inr (map (\<lambda>i. jsvalue_of_read
                                    (view_read (HEAP s2) (elem_kind_of (a_bufferType this))
                                       dest i))
                           [0..<length out]), s2))))"

text \<open>
  The argument of \<^verbatim>\<open>set\<close>: an array with its own storage, or a typed array over the
  heap's buffer.
\<close>

datatype number_array = Plain "real list" | OnHeap elem_kind typed_view

fun array_length :: "number_array \<Rightarrow> nat" where
  "array_length (Plain xs) = length xs"
| "array_length (OnHeap k v) = nat (view_length v)"

text \<open>
  \<^verbatim>\<open>dest.set(v)\<close>: a \<^verbatim>\<open>RangeError\<close> when the source is longer than the
  destination, else every element is stored.
\<close>

definition typed_array_set ::
  "(real \<Rightarrow> real) \<Rightarrow> elem_kind \<Rightarrow> typed_view \<Rightarrow> real list \<Rightarrow> heap \<Rightarrow> error + heap" where
  "typed_array_set fr k dest xs h =
     (if view_length dest < int (length xs) then Inl (RangeError ''offset is out of bounds'')
      else Inr (fold (\<lambda>i. view_write fr k dest i (xs ! i)) [0..<length xs] h))"

definition MeshAttributeAccessor_set ::
  "native \<Rightarrow> MeshAttributeAccessor \<Rightarrow> int \<Rightarrow> number_array \<Rightarrow> state
     \<Rightarrow> (error + unit) \<times> state" where
  "MeshAttributeAccessor_set wl this i v s0 =
     (if js_rem (array_length v) (a_componentCount this) \<noteq> Some 0 then
        (Inl (Error (not_a_multiple_msg (array_length v) (a_componentCount this))), s0)
      else
        (let bytesPerElt = BYTES_PER_ELEMENT (a_bufferType this);
             bytes = bytesPerElt * int (array_length v);
             srcFormatSize = int (a_componentCount this) * bytesPerElt;
             native_set = (\<lambda>off. call_native wl
                            (Wl_mesh_set_attribute_values (a_attribute this) srcFormatSize off bytes
                               (a_formatSize this) (a_offset this + i * a_stride this)
                               (a_stride this)))
         in case v of
              OnHeap k vw \<Rightarrow> (Inr (), snd (native_set (byteOffset vw) s0))
            | Plain xs \<Rightarrow>
                (case tempBufferGetter wl (a_bufferType this) (int (length xs)) s0 of
                   (Inl e, s1) \<Rightarrow> (Inl e, s1)
                 | (Inr dest, s1) \<Rightarrow>
                     (case typed_array_set (Math_fround wl) (elem_kind_of (a_bufferType this))
                             dest xs (HEAP s1) of
                        Inl e \<Rightarrow> (Inl e, s1)
                      | Inr h \<Rightarrow>
                          (Inr (), snd (native_set (byteOffset dest) (s1\<lparr>HEAP := h\<rparr>)))))))"

section \<open>Wrappers and the identity caches\<close>

text \<open>\<^verbatim>\<open>new $Object(o)\<close> and \<^verbatim>\<open>new Component(managerIndex, id)\<close>: a fresh reference.\<close>

definition new_Object :: "int \<Rightarrow> state \<Rightarrow> nat \<times> state" where
  "new_Object o_id s =
     (next_ref s,
      s\<lparr>objects := (objects s)(next_ref s := \<lparr>objectId = Id o_id\<rparr>),
        next_ref := Suc (next_ref s)\<rparr>)"

definition new_Component :: "component_class \<Rightarrow> int \<Rightarrow> int \<Rightarrow> state \<Rightarrow> nat \<times> state" where
  "new_Component cls managerIndex ident s =
     (next_ref s,
      s\<lparr>components := (components s)(next_ref s :=
            \<lparr>c_manager = Id managerIndex, c_id = Id ident, c_object = None, c_type = None,
             c_class = cls\<rparr>),
        next_ref := Suc (next_ref s)\<rparr>)"

definition wrapObject :: "int \<Rightarrow> state \<Rightarrow> nat \<times> state" where
  "wrapObject o_id s0 =
     (let (r, s1) =
            (case ObjectCache s0 o_id of
               Some r \<Rightarrow> (r, s0)
             | None \<Rightarrow>
                 (let (r, s') = new_Object o_id s0
                  in (r, s'\<lparr>ObjectCache := (ObjectCache s')(o_id \<mapsto> r)\<rparr>)));
          s2 = s1\<lparr>objects := (objects s1)(r := (objects s1 r)\<lparr>objectId := Id o_id\<rparr>)\<rparr>
      in (r, s2))"

text \<open>
  The object \<^verbatim>\<open>_WL\<close> is defined outside this module; the model takes the three tables
  read from it as a parameter. A registered component class is known by its index; a class
  of a script is taken to construct as \<^verbatim>\<open>Component\<close> itself does, with no arguments.
\<close>

text \<open>
  The enum \<^verbatim>\<open>MaterialParamType\<close>; its members carry a prefix, \<open>Int\<close> being taken.
\<close>

datatype MaterialParamType = ParamUnsignedInt | ParamInt | ParamFloat | ParamSampler | ParamFont

record param_type =
  pt_type :: MaterialParamType
  componentCount :: int

record material_param =
  p_index :: int
  p_type :: param_type

record WL =
  componentTypeIndices :: "string \<rightharpoonup> nat"
  componentTypes :: "nat \<rightharpoonup> string"
  materialDefinitions :: "int \<rightharpoonup> (string \<rightharpoonup> material_param)"

definition construct_component ::
  "WL \<Rightarrow> string \<Rightarrow> int \<Rightarrow> int \<Rightarrow> state \<Rightarrow> (error + nat) \<times> state" where
  "construct_component wlobj ty componentType componentId s =
     (let native_class = (\<lambda>cls. let (r, s') = new_Component cls componentType componentId s
                                 in (Inr r, s')) in
      if ty = ''collision'' then native_class CollisionComponent
      else if ty = ''text'' then native_class TextComponent
      else if ty = ''view'' then native_class ViewComponent
      else if ty = ''mesh'' then native_class MeshComponent
      else if ty = ''input'' then native_class InputComponent
      else if ty = ''light'' then native_class LightComponent
      else if ty = ''animation'' then native_class AnimationComponent
      else if ty = ''physx'' then native_class PhysXComponent
      else
        (case componentTypeIndices wlobj ty of
           None \<Rightarrow> (Inl (TypeError ''constructor is not a constructor''), s)
         | Some typeIndex \<Rightarrow>
             (case componentTypes wlobj typeIndex of
                None \<Rightarrow> (Inl (TypeError ''constructor is not a constructor''), s)
              | Some _ \<Rightarrow>
                  (let (r, s') = new_Component (CustomComponent typeIndex) (-1) (-1) s
                   in (Inr r, s')))))"

definition wrapComponent ::
  "WL \<Rightarrow> string \<Rightarrow> int \<Rightarrow> int \<Rightarrow> state \<Rightarrow> (error + nat option) \<times> state" where
  "wrapComponent wlobj ty componentType componentId s0 =
     (if componentId < 0 then (Inr None, s0)
      else
        (let (c, s1) =
               (case ComponentCache s0 componentType of
                  Some c \<Rightarrow> (c, s0)
                | None \<Rightarrow>
                    (Map.empty,
                     s0\<lparr>ComponentCache := (ComponentCache s0)(componentType \<mapsto> Map.empty)\<rparr>))
         in case c componentId of
              Some r \<Rightarrow> (Inr (Some r), s1)
            | None \<Rightarrow>
                (case construct_component wlobj ty componentType componentId s1 of
                   (Inl e, s2) \<Rightarrow> (Inl e, s2)
                 | (Inr r, s2) \<Rightarrow>
                     (let s3 = s2\<lparr>components := (components s2)(r :=
                                 (components s2 r)\<lparr>c_manager := Id componentType\<rparr>)\<rparr>;
                          s4 = s3\<lparr>components := (components s3)(r :=
                                 (components s3 r)\<lparr>c_id := Id componentId\<rparr>)\<rparr>;
                          s5 = s4\<lparr>ComponentCache := (ComponentCache s4)(componentType \<mapsto>
                                 c(componentId \<mapsto> r))\<rparr>
                      in (Inr (Some r), s5)))))"

subsection \<open>Component and object methods\<close>

text \<open>\<^verbatim>\<open>a == b\<close> on what a handle field can hold.\<close>

fun loose_eq :: "handle_field \<Rightarrow> handle_field \<Rightarrow> bool" where
  "loose_eq (Id a) (Id b) = (a = b)"
| "loose_eq (Id a) _ = False"
| "loose_eq _ (Id b) = False"
| "loose_eq _ _ = True"



text \<open>
  \<^verbatim>\<open>equals\<close>: the argument is a reference, or \<open>None\<close> for \<^verbatim>\<open>null\<close> and
  \<^verbatim>\<open>undefined\<close>, the only values of its type for which \<^verbatim>\<open>!otherComponent\<close> holds.
\<close>

definition Component_equals :: "state \<Rightarrow> nat \<Rightarrow> nat option \<Rightarrow> bool" where
  "Component_equals s this otherComponent =
     (case otherComponent of
        None \<Rightarrow> False
      | Some other \<Rightarrow>
          loose_eq (c_manager (components s this)) (c_manager (components s other))
          \<and> loose_eq (c_id (components s this)) (c_id (components s other)))"



definition Object_equals :: "state \<Rightarrow> nat \<Rightarrow> nat option \<Rightarrow> bool" where
  "Object_equals s this otherObject =
     (case otherObject of
        None \<Rightarrow> False
      | Some other \<Rightarrow> loose_eq (objectId (objects s this)) (objectId (objects s other)))"

section \<open>Material: dynamic property dispatch\<close>

text \<open>
  A material instance is the object behind the proxy: its own properties by name, among
  them \<^verbatim>\<open>_index\<close> and \<^verbatim>\<open>_definition\<close>. Its prototype is the one the constructor
  gave it, \<^verbatim>\<open>Material.prototype\<close>, and behind that \<^verbatim>\<open>Object.prototype\<close>. Property
  names are strings.
\<close>

type_synonym Material = "string \<rightharpoonup> jsvalue"

text \<open>
  The own property of a name, \<^verbatim>\<open>undefined\<close> when there is none. It is what
  \<^verbatim>\<open>target._index\<close> and \<^verbatim>\<open>target._definition\<close> read, no prototype having a member
  of these names.
\<close>

definition prop_get :: "Material \<Rightarrow> string \<Rightarrow> jsvalue" where
  "prop_get target prop = (case target prop of None \<Rightarrow> JUndefined | Some v \<Rightarrow> v)"

text \<open>
  \<^verbatim>\<open>target[prop]\<close>, the ordinary read of a property: the own property when there is
  one; else the member of the class, where \<^verbatim>\<open>shader\<close> is a getter that asks the native
  runtime and reads the string at the pointer it answers, and \<^verbatim>\<open>clone\<close> and
  \<^verbatim>\<open>constructor\<close> are functions; else the member of \<^verbatim>\<open>Object.prototype\<close>; else
  \<^verbatim>\<open>undefined\<close>.
\<close>

definition Object_prototype_functions :: "string list" where
  "Object_prototype_functions =
     [''hasOwnProperty'', ''isPrototypeOf'', ''propertyIsEnumerable'', ''toLocaleString'',
      ''toString'', ''valueOf'', ''__defineGetter__'', ''__defineSetter__'',
      ''__lookupGetter__'', ''__lookupSetter__'']"

definition property_read ::
  "native \<Rightarrow> Material \<Rightarrow> string \<Rightarrow> state \<Rightarrow> property_value \<times> state" where
  "property_read wl target prop s =
     (case target prop of
        Some v \<Rightarrow> (JValue v, s)
      | None \<Rightarrow>
          if prop = ''shader'' then
            (let (p, s1) = call_native wl (Wl_material_get_shader (prop_get target ''_index'')) s
             in (JString (UTF8ToString wl (HEAP s1) p), s1))
          else if prop = ''clone'' then (JFunction ''clone'', s)
          else if prop = ''constructor'' then (JFunction ''Material'', s)
          else if prop \<in> set Object_prototype_functions then (JFunction prop, s)
          else if prop = ''__proto__'' then (JPrototype ''Material.prototype'', s)
          else (JValue JUndefined, s))"

definition Material_of_index :: "int \<Rightarrow> int \<Rightarrow> Material" where
  "Material_of_index index definition =
     [''_index'' \<mapsto> JNum (real_of_int index), ''_definition'' \<mapsto> JNum (real_of_int definition)]"

text \<open>\<^verbatim>\<open>_WL._materialDefinitions[target._definition]\<close>, \<open>None\<close> for \<^verbatim>\<open>undefined\<close>.\<close>

definition material_definition :: "WL \<Rightarrow> Material \<Rightarrow> (string \<rightharpoonup> material_param) option" where
  "material_definition wlobj target =
     (case prop_get target ''_definition'' of
        JNum x \<Rightarrow> (if x = real_of_int \<lfloor>x\<rfloor> then materialDefinitions wlobj \<lfloor>x\<rfloor> else None)
      | _ \<Rightarrow> None)"

text \<open>
  \<^verbatim>\<open>new Texture(param)\<close> for a number read from an integer view; the entry it adds to
  the global list of textures is not modelled.
\<close>

definition new_Texture :: "real option \<Rightarrow> Texture" where
  "new_Texture param = \<lparr>t_id = (case param of None \<Rightarrow> Undefined | Some x \<Rightarrow> Id \<lfloor>x\<rfloor>)\<rparr>"

definition Texture_id :: "Texture \<Rightarrow> jsvalue" where
  "Texture_id t = jsvalue_of_field (t_id t)"

text \<open>
  One branch of the \<^verbatim>\<open>switch\<close> of the \<^verbatim>\<open>get\<close> handler: the first cell of the temporary
  view for one component, else a new view of \<^verbatim>\<open>componentCount\<close> cells at \<^verbatim>\<open>_tempMem\<close>.
\<close>

definition read_param ::
  "elem_kind \<Rightarrow> typed_view \<Rightarrow> param_type \<Rightarrow> state \<Rightarrow> error + jsvalue" where
  "read_param k temp_view ty s =
     (if componentCount ty = 1 then Inr (jsvalue_of_read (view_read (HEAP s) k temp_view 0))
      else (case new_typed_array (HEAP s) k (tempMem s) (componentCount ty) of
              Inl e \<Rightarrow> Inl e
            | Inr v \<Rightarrow> Inr (JView k v)))"

text \<open>
  The \<^verbatim>\<open>get\<close> handler of the proxy. A handler that falls off its end returns
  \<^verbatim>\<open>undefined\<close>. The message of the \<^verbatim>\<open>default\<close> branch is cut before its
  interpolated tail.
\<close>

definition Material_get ::
  "WL \<Rightarrow> native \<Rightarrow> Material \<Rightarrow> string \<Rightarrow> state \<Rightarrow> (error + property_value) \<times> state" where
  "Material_get wlobj wl target prop s0 =
     (case material_definition wlobj target of
        None \<Rightarrow> (Inl (TypeError ''Cannot read properties of undefined''), s0)
      | Some definition \<Rightarrow>
          (case definition prop of
             None \<Rightarrow> (let (v, s1) = property_read wl target prop s0 in (Inr v, s1))
           | Some param \<Rightarrow>
               (let (r, s1) = call_native wl
                                (Wl_material_get_param_value (prop_get target ''_index'')
                                   (p_index param) (tempMem s0)) s0
                in if r \<noteq> 0 then
                     (let ty = p_type param
                      in case pt_type ty of
                           ParamUnsignedInt \<Rightarrow>
                             (map_sum id JValue (read_param Uint32 (tempMemUint32 s1) ty s1), s1)
                         | ParamInt \<Rightarrow>
                             (map_sum id JValue (read_param Int32 (tempMemInt s1) ty s1), s1)
                         | ParamFloat \<Rightarrow>
                             (map_sum id JValue (read_param Float32 (tempMemFloat s1) ty s1), s1)
                         | ParamSampler \<Rightarrow>
                             (Inr (JValue (JTexture (new_Texture
                                     (view_read (HEAP s1) Int32 (tempMemInt s1) 0)))), s1)
                         | ParamFont \<Rightarrow> (Inl (Error ''Invalid type''), s1))
                   else (Inr (JValue JUndefined), s1))))"

text \<open>
  The \<^verbatim>\<open>Float\<close> branch of the \<^verbatim>\<open>set\<close> handler stages the value in the float view of
  the temporary memory: the heap after staging and the \<^verbatim>\<open>count\<close> passed on, or the
  \<^verbatim>\<open>TypeError\<close> of reading \<^verbatim>\<open>length\<close> of \<^verbatim>\<open>null\<close> or \<^verbatim>\<open>undefined\<close>.
  A texture wrapper has no \<^verbatim>\<open>length\<close>: the count is \<^verbatim>\<open>undefined\<close> and the loop does
  not run.
\<close>

fun stage_floats ::
  "(real \<Rightarrow> real) \<Rightarrow> typed_view \<Rightarrow> jsvalue \<Rightarrow> heap \<Rightarrow> error + (jsvalue \<times> heap)" where
  "stage_floats fr tf (JNum x) h = Inr (JNum 1, view_write fr Float32 tf 0 x h)"
| "stage_floats fr tf (JArray xs) h =
     Inr (JNum (real (length xs)),
          fold (\<lambda>i. view_write fr Float32 tf i (xs ! i)) [0..<length xs] h)"
| "stage_floats fr tf (JView k v) h =
     Inr (JNum (real_of_int (view_length v)),
          fold (\<lambda>i h'. case view_read h' k v i of
                          Some x \<Rightarrow> view_write fr Float32 tf i x h'
                        | None \<Rightarrow> h')
               [0..<nat (view_length v)] h)"
| "stage_floats fr tf (JTexture t) h = Inr (JUndefined, h)"
| "stage_floats fr tf JNull h = Inl (TypeError ''Cannot read properties of null'')"
| "stage_floats fr tf JUndefined h = Inl (TypeError ''Cannot read properties of undefined'')"

text \<open>
  The \<^verbatim>\<open>set\<close> handler of the proxy; it returns the instance. For a name that is not a
  parameter of the definition it is the ordinary assignment \<^verbatim>\<open>target[prop] = value\<close>:
  the own property is written, except that \<^verbatim>\<open>shader\<close>, inherited with a getter and no
  setter, cannot be assigned in the strict code of a class, and that \<^verbatim>\<open>__proto__\<close>
  writes no own property (the prototype it may replace is not followed).
\<close>

definition Material_set ::
  "WL \<Rightarrow> native \<Rightarrow> Material \<Rightarrow> string \<Rightarrow> jsvalue \<Rightarrow> state \<Rightarrow> (error + Material) \<times> state" where
  "Material_set wlobj wl target prop val s0 =
     (case material_definition wlobj target of
        None \<Rightarrow> (Inl (TypeError ''Cannot read properties of undefined''), s0)
      | Some definition \<Rightarrow>
          (case definition prop of
             None \<Rightarrow>
               (if target prop = None \<and> prop = ''shader'' then
                  (Inl (TypeError ''Cannot set property shader which has only a getter''), s0)
                else if target prop = None \<and> prop = ''__proto__'' then (Inr target, s0)
                else (Inr (target(prop \<mapsto> val)), s0))
           | Some param \<Rightarrow>
               (let set_uint =
                      (let v = (case val of JTexture t \<Rightarrow> Texture_id t | _ \<Rightarrow> val)
                       in (Inr target,
                           snd (call_native wl
                                  (Wl_material_set_param_value_uint (prop_get target ''_index'')
                                     (p_index param) v) s0)))
                in case pt_type (p_type param) of
                     ParamUnsignedInt \<Rightarrow> set_uint
                   | ParamInt \<Rightarrow> set_uint
                   | ParamSampler \<Rightarrow> set_uint
                   | ParamFloat \<Rightarrow>
                       (case stage_floats (Math_fround wl) (tempMemFloat s0) val (HEAP s0) of
                          Inl e \<Rightarrow> (Inl e, s0)
                        | Inr (count, h) \<Rightarrow>
                            (Inr target,
                             snd (call_native wl
                                    (Wl_material_set_param_value_float (prop_get target ''_index'')
                                       (p_index param) (tempMem s0) count)
                                    (s0\<lparr>HEAP := h\<rparr>))))
                   | ParamFont \<Rightarrow>
                       (Inl (Error ''Setting font properties is currently unsupported.''), s0))))"

section \<open>Ray hit\<close>

record RayHit =
  r_ptr :: int

definition MISALIGNED_MSG :: string where
  "MISALIGNED_MSG = ''Misaligned pointer: please report a bug''"

text \<open>The constructor; a failed \<^verbatim>\<open>assert\<close> throws its message.\<close>

definition new_RayHit :: "int \<Rightarrow> error + RayHit" where
  "new_RayHit ptr =
     (if and (word_of_int ptr :: 32 word) 3 = 0 then Inr \<lparr>r_ptr = ptr\<rparr>
      else Inl (Error MISALIGNED_MSG))"

text \<open>
  \<^verbatim>\<open>HEAPU32[ptr / 4 + 30]\<close>: \<^verbatim>\<open>undefined\<close> (\<open>None\<close>) when the index is not a whole
  number or lies outside the view.
\<close>

definition HEAPU32_hit_counter :: "heap \<Rightarrow> int \<Rightarrow> 32 word option" where
  "HEAPU32_hit_counter h ptr =
     (if ptr mod 4 = 0 \<and> 0 \<le> ptr div 4 + 30 \<and> ptr div 4 + 30 < int (heap_bytes h div 4)
      then Some (HEAPU32 h (nat (ptr div 4 + 30)))
      else None)"

text \<open>\<^verbatim>\<open>hitCount\<close>; \<open>None\<close> is the \<^verbatim>\<open>NaN\<close> that \<^verbatim>\<open>Math.min(undefined, 4)\<close> gives.\<close>

definition RayHit_hitCount :: "heap \<Rightarrow> RayHit \<Rightarrow> nat option" where
  "RayHit_hitCount h this =
     (case HEAPU32_hit_counter h (r_ptr this) of
        None \<Rightarrow> None
      | Some w \<Rightarrow> Some (min (unat w) 4))"

text \<open>
  The loop shared by \<^verbatim>\<open>locations\<close> and \<^verbatim>\<open>normals\<close>: it reads \<^verbatim>\<open>hitCount\<close> before
  every round; a comparison with \<^verbatim>\<open>NaN\<close> is false.
\<close>

function push_views ::
  "heap \<Rightarrow> RayHit \<Rightarrow> int \<Rightarrow> nat \<Rightarrow> typed_view list \<Rightarrow> error + typed_view list" where
  "push_views h this p i l =
     (if (case RayHit_hitCount h this of None \<Rightarrow> False | Some n \<Rightarrow> i < n) then
        (case new_typed_array h Float32 (p + 12 * int i) 3 of
           Inl e \<Rightarrow> Inl e
         | Inr v \<Rightarrow> push_views h this p (Suc i) (l @ [v]))
      else Inr l)"
  by pat_completeness auto
termination
  by (relation "measure (\<lambda>(h, this, p, i, l). 4 - i)")
     (auto simp: RayHit_hitCount_def split: option.splits)

definition RayHit_locations :: "heap \<Rightarrow> RayHit \<Rightarrow> error + typed_view list" where
  "RayHit_locations h this = push_views h this (r_ptr this) 0 []"

definition RayHit_normals :: "heap \<Rightarrow> RayHit \<Rightarrow> error + typed_view list" where
  "RayHit_normals h this = push_views h this (r_ptr this + 48) 0 []"

section \<open>Predicates of the statements\<close>

text \<open>
  A type name that \<^verbatim>\<open>_wrapComponent\<close> can turn into an instance: one of the eight
  names it tests for, or a name registered with a constructor.
\<close>

definition native_type_names :: "string list" where
  "native_type_names =
     [''collision'', ''text'', ''view'', ''mesh'', ''input'', ''light'', ''animation'', ''physx'']"

definition type_resolves :: "WL \<Rightarrow> string \<Rightarrow> bool" where
  "type_resolves wlobj ty =
     (ty \<in> set native_type_names
      \<or> (case componentTypeIndices wlobj ty of
            None \<Rightarrow> False
          | Some typeIndex \<Rightarrow> componentTypes wlobj typeIndex \<noteq> None))"

text \<open>
  The names a material instance inherits: the members of its class and those of
  \<^verbatim>\<open>Object.prototype\<close>.
\<close>

definition inherited_names :: "string list" where
  "inherited_names =
     ''shader'' # ''clone'' # ''constructor'' # ''__proto__'' # Object_prototype_functions"

text \<open>
  A length that is a positive multiple of the component count, as the specification of
  the accessor words the requirement on \<^verbatim>\<open>out.length\<close>.
\<close>

definition positive_multiple :: "nat \<Rightarrow> nat \<Rightarrow> bool" where
  "positive_multiple len count = (0 < len \<and> len mod count = 0)"

text \<open>
  The hit block of a \<^verbatim>\<open>RayHit\<close>, 124 bytes at an aligned pointer (locations, normals,
  distances, object ids, then the counter at byte 120), lies inside the heap.
\<close>

definition hit_block_in_heap :: "heap \<Rightarrow> RayHit \<Rightarrow> bool" where
  "hit_block_in_heap h this =
     (r_ptr this mod 4 = 0 \<and> 0 \<le> r_ptr this \<and> r_ptr this + 124 \<le> int (heap_bytes h))"

section \<open>Concrete inputs\<close>

text \<open>The globals as the module declares them, before \<^verbatim>\<open>init\<close>, over a heap of 64 KiB.\<close>

definition module_start :: state where
  "module_start =
     \<lparr>tempMem = 0, tempMemSize = 0,
      tempMemFloat = \<lparr>byteOffset = 0, view_length = 0\<rparr>,
      tempMemInt = \<lparr>byteOffset = 0, view_length = 0\<rparr>,
      tempMemUint32 = \<lparr>byteOffset = 0, view_length = 0\<rparr>,
      tempMemUint16 = \<lparr>byteOffset = 0, view_length = 0\<rparr>,
      tempMemUint8 = \<lparr>byteOffset = 0, view_length = 0\<rparr>,
      HEAP = \<lparr>HEAPU32 = (\<lambda>_. 0), HEAPF32 = (\<lambda>_. 0), HEAPU16 = (\<lambda>_. 0),
              HEAPU8 = (\<lambda>_. 0), heap_bytes = 65536\<rparr>,
      native_log = [],
      ObjectCache = Map.empty, ComponentCache = Map.empty,
      objects = (\<lambda>_. \<lparr>objectId = Null\<rparr>),
      components = (\<lambda>_. \<lparr>c_manager = Undefined, c_id = Undefined, c_object = None,
                             c_type = None, c_class = CollisionComponent\<rparr>),
      next_ref = 0\<rparr>"

text \<open>
  A native runtime that hands out blocks at 4096 and above, leaves the heap alone and
  answers every other call with 0; with it, a rounding that keeps every number and a
  string reader that finds the empty string everywhere.
\<close>

definition idle_native :: native where
  "idle_native =
     \<lparr>native_fn = (\<lambda>lg c h. (case c of Malloc n \<Rightarrow> 4096 + 8 * int (length lg) | _ \<Rightarrow> 0, h)),
      Math_fround = (\<lambda>x. x),
      UTF8ToString = (\<lambda>h p. [])\<rparr>"

definition started :: state where
  "started = snd (init idle_native module_start)"

text \<open>An engine with no registered component class and no material definition.\<close>

definition no_registry :: WL where
  "no_registry = \<lparr>componentTypeIndices = Map.empty, componentTypes = Map.empty,
                  materialDefinitions = Map.empty\<rparr>"

text \<open>
  The accessor that \<^verbatim>\<open>Mesh.attribute\<close> builds for the positions of a mesh of four
  vertices, three floats each, tightly packed.
\<close>

definition position_accessor :: MeshAttributeAccessor where
  "position_accessor =
     (new_MeshAttributeAccessor Position)
       \<lparr>a_attribute := 0, a_offset := 0, a_stride := 12, a_formatSize := 12,
        a_componentCount := 3, a_length := 4\<rparr>"

text \<open>
  An engine with one material definition, number 1, of four parameters, and the material
  of index 5 that uses it.
\<close>

definition demo_definition :: "string \<rightharpoonup> material_param" where
  "demo_definition =
     [''diffuseTexture'' \<mapsto>
        \<lparr>p_index = 0, p_type = \<lparr>pt_type = ParamSampler, componentCount = 1\<rparr>\<rparr>,
      ''diffuseColor'' \<mapsto>
        \<lparr>p_index = 1, p_type = \<lparr>pt_type = ParamFloat, componentCount = 4\<rparr>\<rparr>,
      ''shininess'' \<mapsto>
        \<lparr>p_index = 2, p_type = \<lparr>pt_type = ParamFloat, componentCount = 1\<rparr>\<rparr>,
      ''font'' \<mapsto>
        \<lparr>p_index = 3, p_type = \<lparr>pt_type = ParamFont, componentCount = 1\<rparr>\<rparr>]"

definition demo_engine :: WL where
  "demo_engine = \<lparr>componentTypeIndices = Map.empty, componentTypes = Map.empty,
                  materialDefinitions = [1 \<mapsto> demo_definition]\<rparr>"

definition demo_material :: Material where
  "demo_material = Material_of_index 5 1"

text \<open>The state after the mesh component 5 of manager 2 has been wrapped once.\<close>

definition mesh_cached :: state where
  "mesh_cached = snd (wrapComponent no_registry ''mesh'' 2 5 started)"

text \<open>
  Two component wrappers for the same native component, instance 5 of manager 2, that
  differ in every other field; and a third for instance 6.
\<close>

definition mesh_wrappers :: state where
  "mesh_wrappers =
     started\<lparr>components := (components started)
       (0 := \<lparr>c_manager = Id 2, c_id = Id 5, c_object = None, c_type = None,
               c_class = MeshComponent\<rparr>,
        1 := \<lparr>c_manager = Id 2, c_id = Id 5, c_object = Some 7, c_type = Some ''mesh'',
               c_class = CustomComponent 0\<rparr>,
        2 := \<lparr>c_manager = Id 2, c_id = Id 6, c_object = None, c_type = None,
               c_class = MeshComponent\<rparr>),
       objects := (objects started)(0 := \<lparr>objectId = Id 3\<rparr>, 1 := \<lparr>objectId = Id 3\<rparr>,
                                     2 := \<lparr>objectId = Id 4\<rparr>),
       next_ref := 3\<rparr>"

text \<open>A heap holding a hit block at byte 256 whose counter reads 7, and its wrapper.\<close>

definition hit_heap :: heap where
  "hit_heap = \<lparr>HEAPU32 = (\<lambda>i. if i = 94 then 7 else 0), HEAPF32 = (\<lambda>_. 0),
               HEAPU16 = (\<lambda>_. 0), HEAPU8 = (\<lambda>_. 0), heap_bytes = 65536\<rparr>"

definition seven_hits :: RayHit where
  "seven_hits = \<lparr>r_ptr = 256\<rparr>"

section \<open>Native calls\<close>

text \<open>A native call appends itself to the log and leaves the wrappers alone.\<close>

lemma native_log_call_native [simp]:
  "native_log (snd (call_native wl c s)) = native_log s @ [c]"
  by (simp add: call_native_def split: prod.split)

lemma components_call_native [simp]:
  "components (snd (call_native wl c s)) = components s"
  by (simp add: call_native_def split: prod.split)

lemma objects_call_native [simp]:
  "objects (snd (call_native wl c s)) = objects s"
  by (simp add: call_native_def split: prod.split)

section \<open>Temporary memory: growth\<close>

lemma tempMemSize_call_native [simp]:
  "tempMemSize (snd (call_native wl c s)) = tempMemSize s"
  by (simp add: call_native_def split: prod.split)

lemma tempMem_call_native [simp]:
  "tempMem (snd (call_native wl c s)) = tempMem s"
  by (simp add: call_native_def split: prod.split)

lemma new_typed_array_Inl:
  "new_typed_array h k off len = Inl e \<Longrightarrow> \<exists>msg. e = RangeError msg"
  by (auto simp: new_typed_array_def split: if_splits)

lemma new_typed_array_Inr:
  "new_typed_array h k off len = Inr v \<Longrightarrow> v = \<lparr>byteOffset = off, view_length = len\<rparr>"
  by (auto simp: new_typed_array_def split: if_splits)

lemma new_typed_array_fits:
  assumes "off mod elem_bytes k = 0" "0 \<le> off" "0 \<le> len"
    and "off + len * elem_bytes k \<le> int (heap_bytes h)"
  shows "new_typed_array h k off len = Inr \<lparr>byteOffset = off, view_length = len\<rparr>"
proof -
  have "0 \<le> len * elem_bytes k" using assms(3) by (cases k) simp_all
  then have "off \<le> int (heap_bytes h)" using assms(4) by linarith
  then show ?thesis using assms by (simp add: new_typed_array_def)
qed

lemma updateTempMemory_keeps [simp]:
  "tempMemSize (snd (updateTempMemory s)) = tempMemSize s"
  "tempMem (snd (updateTempMemory s)) = tempMem s"
  "native_log (snd (updateTempMemory s)) = native_log s"
  "HEAP (snd (updateTempMemory s)) = HEAP s"
  by (simp_all add: updateTempMemory_def Let_def split: sum.split)

lemma updateTempMemory_error:
  "fst (updateTempMemory s) = Some e \<Longrightarrow> \<exists>msg. e = RangeError msg"
  unfolding updateTempMemory_def Let_def
  by (auto split: sum.splits dest: new_typed_array_Inl)

lemma updateTempMemory_views:
  assumes "fst (updateTempMemory s) = None"
  shows "snd (updateTempMemory s)
         = s\<lparr>tempMemFloat := \<lparr>byteOffset = tempMem s, view_length = js_shr (tempMemSize s) 2\<rparr>,
             tempMemInt := \<lparr>byteOffset = tempMem s, view_length = js_shr (tempMemSize s) 2\<rparr>,
             tempMemUint32 := \<lparr>byteOffset = tempMem s, view_length = js_shr (tempMemSize s) 2\<rparr>,
             tempMemUint16 := \<lparr>byteOffset = tempMem s, view_length = js_shr (tempMemSize s) 1\<rparr>,
             tempMemUint8 := \<lparr>byteOffset = tempMem s, view_length = tempMemSize s\<rparr>\<rparr>"
  using assms unfolding updateTempMemory_def Let_def
  by (auto split: sum.splits dest!: new_typed_array_Inr)

lemma js_shr_nonneg:
  assumes "0 \<le> x" "x < 2 ^ 31"
  shows "js_shr x k = x div 2 ^ k"
proof -
  have "sint (word_of_int x :: 32 word) = signed_take_bit 31 x"
    by (simp add: sint_sbintrunc')
  also have "\<dots> = x"
    using assms by (intro signed_take_bit_int_eq_self) simp_all
  finally have "sint (word_of_int x :: 32 word) = x" .
  then show ?thesis
    by (simp add: js_shr_def sint_signed_drop_bit_eq drop_bit_eq_div)
qed

lemma updateTempMemory_fits:
  assumes "0 \<le> tempMemSize s" "tempMemSize s < 2 ^ 31"
    and "tempMem s mod 4 = 0" "0 \<le> tempMem s"
    and "tempMem s + tempMemSize s \<le> int (heap_bytes (HEAP s))"
  shows "fst (updateTempMemory s) = None"
proof -
  let ?n = "tempMemSize s" and ?p = "tempMem s"
  have q4: "js_shr ?n 2 = ?n div 4" using js_shr_nonneg [OF assms(1,2), of 2] by simp
  have q2: "js_shr ?n (Suc 0) = ?n div 2" using js_shr_nonneg [OF assms(1,2), of 1] by simp
  have b4: "0 \<le> ?n div 4" "?p + ?n div 4 * 4 \<le> int (heap_bytes (HEAP s))"
    using assms(1,5) by linarith+
  have b2: "0 \<le> ?n div 2" "?p + ?n div 2 * 2 \<le> int (heap_bytes (HEAP s))"
    using assms(1,5) by linarith+
  have m2: "?p mod 2 = 0" using assms(3) by presburger
  have f: "new_typed_array (HEAP s) Float32 ?p (js_shr ?n 2)
           = Inr \<lparr>byteOffset = ?p, view_length = js_shr ?n 2\<rparr>"
    unfolding q4 by (rule new_typed_array_fits) (use assms b4 in simp_all)
  have i: "new_typed_array (HEAP s) Int32 ?p (js_shr ?n 2)
           = Inr \<lparr>byteOffset = ?p, view_length = js_shr ?n 2\<rparr>"
    unfolding q4 by (rule new_typed_array_fits) (use assms b4 in simp_all)
  have u: "new_typed_array (HEAP s) Uint32 ?p (js_shr ?n 2)
           = Inr \<lparr>byteOffset = ?p, view_length = js_shr ?n 2\<rparr>"
    unfolding q4 by (rule new_typed_array_fits) (use assms b4 in simp_all)
  have h: "new_typed_array (HEAP s) Uint16 ?p (js_shr ?n (Suc 0))
           = Inr \<lparr>byteOffset = ?p, view_length = js_shr ?n (Suc 0)\<rparr>"
    unfolding q2 by (rule new_typed_array_fits) (use assms b2 m2 in simp_all)
  have e: "new_typed_array (HEAP s) Uint8 ?p ?n
           = Inr \<lparr>byteOffset = ?p, view_length = ?n\<rparr>"
    by (rule new_typed_array_fits) (use assms in simp_all)
  show ?thesis
    by (simp add: updateTempMemory_def Let_def f i u h e)
qed


lemma allocateTempMemory_unfold:
  "allocateTempMemory wl n s
   = updateTempMemory
       ((snd (call_native wl (Malloc n)
                (if tempMem s \<noteq> 0
                 then snd (call_native wl (Free (tempMem s)) (s\<lparr>tempMemSize := n\<rparr>))
                 else s\<lparr>tempMemSize := n\<rparr>)))
        \<lparr>tempMem := fst (call_native wl (Malloc n)
                (if tempMem s \<noteq> 0
                 then snd (call_native wl (Free (tempMem s)) (s\<lparr>tempMemSize := n\<rparr>))
                 else s\<lparr>tempMemSize := n\<rparr>))\<rparr>)"
  by (simp add: allocateTempMemory_def Let_def split: prod.split)

lemma call_native_tempMemSize_update:
  "fst (call_native wl c (s\<lparr>tempMemSize := n\<rparr>)) = fst (call_native wl c s)"
  "snd (call_native wl c (s\<lparr>tempMemSize := n\<rparr>)) = (snd (call_native wl c s))\<lparr>tempMemSize := n\<rparr>"
  by (simp_all add: call_native_def split: prod.split)

lemma tempMemSize_allocateTempMemory [simp]:
  "tempMemSize (snd (allocateTempMemory wl n s)) = n"
  by (simp add: allocateTempMemory_unfold)

lemma native_log_allocateTempMemory:
  "native_log (snd (allocateTempMemory wl n s))
   = native_log s @ (if tempMem s \<noteq> 0 then [Free (tempMem s)] else []) @ [Malloc n]"
  by (simp add: allocateTempMemory_unfold)

lemma tempMem_allocateTempMemory:
  "tempMem (snd (allocateTempMemory wl n s))
   = fst (call_native wl (Malloc n)
            (if tempMem s \<noteq> 0 then snd (call_native wl (Free (tempMem s)) s) else s))"
  by (simp add: allocateTempMemory_unfold call_native_tempMemSize_update)

lemma allocateTempMemory_views:
  assumes "fst (allocateTempMemory wl n s) = None"
  shows "tempMemFloat (snd (allocateTempMemory wl n s))
           = \<lparr>byteOffset = tempMem (snd (allocateTempMemory wl n s)), view_length = js_shr n 2\<rparr>
       \<and> tempMemInt (snd (allocateTempMemory wl n s))
           = \<lparr>byteOffset = tempMem (snd (allocateTempMemory wl n s)), view_length = js_shr n 2\<rparr>
       \<and> tempMemUint32 (snd (allocateTempMemory wl n s))
           = \<lparr>byteOffset = tempMem (snd (allocateTempMemory wl n s)), view_length = js_shr n 2\<rparr>
       \<and> tempMemUint16 (snd (allocateTempMemory wl n s))
           = \<lparr>byteOffset = tempMem (snd (allocateTempMemory wl n s)), view_length = js_shr n 1\<rparr>
       \<and> tempMemUint8 (snd (allocateTempMemory wl n s))
           = \<lparr>byteOffset = tempMem (snd (allocateTempMemory wl n s)), view_length = n\<rparr>"
proof -
  obtain s4 where a: "allocateTempMemory wl n s = updateTempMemory s4"
    and n: "tempMemSize s4 = n"
    by (simp add: allocateTempMemory_unfold)
  have "fst (updateTempMemory s4) = None" using assms a by simp
  then show ?thesis
    unfolding a using updateTempMemory_views [of s4] n by simp
qed

lemma allocateTempMemory_fits:
  assumes "0 \<le> n" "n < 2 ^ 31"
    and "tempMem (snd (allocateTempMemory wl n s)) mod 4 = 0"
    and "0 \<le> tempMem (snd (allocateTempMemory wl n s))"
    and "tempMem (snd (allocateTempMemory wl n s)) + n
         \<le> int (heap_bytes (HEAP (snd (allocateTempMemory wl n s))))"
  shows "fst (allocateTempMemory wl n s) = None"
proof -
  obtain s4 where a: "allocateTempMemory wl n s = updateTempMemory s4"
    and n: "tempMemSize s4 = n"
    by (simp add: allocateTempMemory_unfold)
  show ?thesis
    unfolding a using assms n by (intro updateTempMemory_fits) (simp_all add: a)
qed

lemma allocateTempMemory_error:
  "fst (allocateTempMemory wl n s) = Some e \<Longrightarrow> \<exists>msg. e = RangeError msg"
  unfolding allocateTempMemory_unfold by (rule updateTempMemory_error)

lemma Math_ceil_div_1024_ge: "sz \<le> Math_ceil_div sz 1024 * 1024"
  unfolding Math_ceil_div_def by linarith

lemma requireTempMem_grows: "tempMemSize s \<le> tempMemSize (snd (requireTempMem wl sz s))"
  using Math_ceil_div_1024_ge [of sz] by (simp add: requireTempMem_def)

lemma requireTempMem_fits: "sz \<le> tempMemSize (snd (requireTempMem wl sz s))"
  using Math_ceil_div_1024_ge [of sz] by (simp add: requireTempMem_def)

lemma requireTempMem_error:
  "fst (requireTempMem wl sz s) = Some e \<Longrightarrow> \<exists>msg. e = RangeError msg"
  by (auto simp: requireTempMem_def split: if_splits dest: allocateTempMemory_error)

lemma requireTempMem_enough:
  "sz \<le> tempMemSize s \<Longrightarrow> requireTempMem wl sz s = (None, s)"
  by (simp add: requireTempMem_def)

lemma requireTempMem_short:
  "tempMemSize s < sz \<Longrightarrow>
   requireTempMem wl sz s = allocateTempMemory wl (\<lceil>real_of_int sz / 1024\<rceil> * 1024) s"
  by (simp add: requireTempMem_def Math_ceil_div_def)

lemma fold_requireTempMem_grows:
  "tempMemSize s \<le> tempMemSize (fold (\<lambda>sz s. snd (requireTempMem wl sz s)) szs s)"
proof (induction szs arbitrary: s)
  case Nil
  then show ?case by simp
next
  case (Cons a szs)
  have "tempMemSize s \<le> tempMemSize (snd (requireTempMem wl a s))"
    by (rule requireTempMem_grows)
  also have "\<dots> \<le> tempMemSize (fold (\<lambda>sz s. snd (requireTempMem wl sz s)) szs
                                   (snd (requireTempMem wl a s)))"
    by (rule Cons.IH)
  finally show ?case by simp
qed

lemma new_typed_array_negative:
  "len < 0 \<Longrightarrow> \<exists>msg. new_typed_array h k off len = Inl (RangeError msg)"
  by (simp add: new_typed_array_def)

lemma updateTempMemory_negative:
  assumes "js_shr (tempMemSize s) 2 < 0"
  shows "\<exists>msg. updateTempMemory s = (Some (RangeError msg), s)"
proof -
  obtain msg where "new_typed_array (HEAP s) Float32 (tempMem s) (js_shr (tempMemSize s) 2)
                    = Inl (RangeError msg)"
    using new_typed_array_negative [OF assms] by blast
  then show ?thesis by (simp add: updateTempMemory_def)
qed

text \<open>
  A request of two gibibytes cannot be met: the lengths \<^verbatim>\<open>_tempMemSize >> 2\<close> come out
  negative, the first constructor throws, and the views stay as they were, beside the new
  size and the new block.
\<close>

lemma requireTempMem_two_gibibytes:
  assumes "tempMemSize s < 2 ^ 31"
  shows "\<exists>msg. fst (requireTempMem wl (2 ^ 31) s) = Some (RangeError msg)"
    and "tempMemFloat (snd (requireTempMem wl (2 ^ 31) s)) = tempMemFloat s"
    and "tempMemSize (snd (requireTempMem wl (2 ^ 31) s)) = 2 ^ 31"
proof -
  have n: "\<lceil>real_of_int (2 ^ 31) / 1024\<rceil> * 1024 = (2147483648::int)" by simp
  have j: "js_shr 2147483648 2 = - 536870912" by (simp add: js_shr_def)
  have r: "requireTempMem wl (2 ^ 31) s = allocateTempMemory wl 2147483648 s"
    using requireTempMem_short [of s "2 ^ 31" wl] assms n by simp
  obtain s4 where a: "allocateTempMemory wl 2147483648 s = updateTempMemory s4"
    and k: "tempMemSize s4 = 2147483648" "tempMemFloat s4 = tempMemFloat s"
    by (simp add: allocateTempMemory_unfold call_native_def split: prod.split)
  obtain msg where u: "updateTempMemory s4 = (Some (RangeError msg), s4)"
    using updateTempMemory_negative [of s4] k j by auto
  show "\<exists>msg. fst (requireTempMem wl (2 ^ 31) s) = Some (RangeError msg)"
    unfolding r a u by simp
  show "tempMemFloat (snd (requireTempMem wl (2 ^ 31) s)) = tempMemFloat s"
    unfolding r a u by (simp add: k)
  show "tempMemSize (snd (requireTempMem wl (2 ^ 31) s)) = 2 ^ 31"
    unfolding r a u by (simp add: k)
qed


lemma init_idle:
  "init idle_native module_start
   = (None,
      module_start
        \<lparr>tempMem := 4096, tempMemSize := 1024,
         tempMemFloat := \<lparr>byteOffset = 4096, view_length = 256\<rparr>,
         tempMemInt := \<lparr>byteOffset = 4096, view_length = 256\<rparr>,
         tempMemUint32 := \<lparr>byteOffset = 4096, view_length = 256\<rparr>,
         tempMemUint16 := \<lparr>byteOffset = 4096, view_length = 512\<rparr>,
         tempMemUint8 := \<lparr>byteOffset = 4096, view_length = 1024\<rparr>,
         native_log := [Malloc 1024]\<rparr>)"
  by (simp add: init_def allocateTempMemory_def call_native_def idle_native_def
        updateTempMemory_def new_typed_array_def js_shr_def module_start_def Let_def)

lemma started_eval:
  "tempMem started = 4096" "tempMemSize started = 1024"
  "tempMemFloat started = \<lparr>byteOffset = 4096, view_length = 256\<rparr>"
  "native_log started = [Malloc 1024]"
  "heap_bytes (HEAP started) = 65536"
  "ObjectCache started = Map.empty" "ComponentCache started = Map.empty"
  "next_ref started = 0"
  by (simp_all add: started_def init_idle) (simp_all add: module_start_def)

text \<open>
  C2. \<^verbatim>\<open>requireTempMem(sz)\<close> changes nothing when the capacity is already at least
  \<open>sz\<close>. Otherwise it reallocates: the capacity becomes exactly
  \<open>ceil(sz / 1024) * 1024\<close>, the old block, if there is one, is freed and a block of the
  new capacity is asked of the allocator, whose answer becomes \<^verbatim>\<open>_tempMem\<close>; the five
  views are rebuilt over the new block whenever the call returns, and it does return when
  the block lies in the heap at a multiple of four and the capacity is below \<open>2^31\<close>. So
  the capacity never shrinks, over one call or over any sequence of calls, and a request
  of 1500 at capacity 1024 leaves capacity 2048.
\<close>

theorem requireTempMem_capacity:
  "(sz \<le> tempMemSize s \<longrightarrow> requireTempMem wl sz s = (None, s))
   \<and> (tempMemSize s < sz \<longrightarrow>
        tempMemSize (snd (requireTempMem wl sz s)) = \<lceil>real_of_int sz / 1024\<rceil> * 1024
        \<and> native_log (snd (requireTempMem wl sz s))
            = native_log s @ (if tempMem s \<noteq> 0 then [Free (tempMem s)] else [])
                @ [Malloc (\<lceil>real_of_int sz / 1024\<rceil> * 1024)]
        \<and> tempMem (snd (requireTempMem wl sz s))
            = fst (call_native wl (Malloc (\<lceil>real_of_int sz / 1024\<rceil> * 1024))
                     (if tempMem s \<noteq> 0 then snd (call_native wl (Free (tempMem s)) s)
                      else s))
        \<and> (fst (requireTempMem wl sz s) = None \<longrightarrow>
             tempMemFloat (snd (requireTempMem wl sz s))
               = \<lparr>byteOffset = tempMem (snd (requireTempMem wl sz s)),
                  view_length = js_shr (\<lceil>real_of_int sz / 1024\<rceil> * 1024) 2\<rparr>
             \<and> tempMemInt (snd (requireTempMem wl sz s))
               = \<lparr>byteOffset = tempMem (snd (requireTempMem wl sz s)),
                  view_length = js_shr (\<lceil>real_of_int sz / 1024\<rceil> * 1024) 2\<rparr>
             \<and> tempMemUint32 (snd (requireTempMem wl sz s))
               = \<lparr>byteOffset = tempMem (snd (requireTempMem wl sz s)),
                  view_length = js_shr (\<lceil>real_of_int sz / 1024\<rceil> * 1024) 2\<rparr>
             \<and> tempMemUint16 (snd (requireTempMem wl sz s))
               = \<lparr>byteOffset = tempMem (snd (requireTempMem wl sz s)),
                  view_length = js_shr (\<lceil>real_of_int sz / 1024\<rceil> * 1024) 1\<rparr>
             \<and> tempMemUint8 (snd (requireTempMem wl sz s))
               = \<lparr>byteOffset = tempMem (snd (requireTempMem wl sz s)),
                  view_length = \<lceil>real_of_int sz / 1024\<rceil> * 1024\<rparr>)
        \<and> (0 \<le> sz \<and> \<lceil>real_of_int sz / 1024\<rceil> * 1024 < 2 ^ 31
             \<and> tempMem (snd (requireTempMem wl sz s)) mod 4 = 0
             \<and> 0 \<le> tempMem (snd (requireTempMem wl sz s))
             \<and> tempMem (snd (requireTempMem wl sz s)) + \<lceil>real_of_int sz / 1024\<rceil> * 1024
                 \<le> int (heap_bytes (HEAP (snd (requireTempMem wl sz s))))
             \<longrightarrow> fst (requireTempMem wl sz s) = None))
   \<and> tempMemSize s \<le> tempMemSize (snd (requireTempMem wl sz s))
   \<and> tempMemSize s \<le> tempMemSize (fold (\<lambda>sz s. snd (requireTempMem wl sz s)) szs s)
   \<and> (tempMemSize s = 1024 \<longrightarrow> tempMemSize (snd (requireTempMem wl 1500 s)) = 2048)"
proof (intro conjI)
  show "sz \<le> tempMemSize s \<longrightarrow> requireTempMem wl sz s = (None, s)"
    by (simp add: requireTempMem_enough)
  show "tempMemSize s \<le> tempMemSize (snd (requireTempMem wl sz s))"
    by (rule requireTempMem_grows)
  show "tempMemSize s \<le> tempMemSize (fold (\<lambda>sz s. snd (requireTempMem wl sz s)) szs s)"
    by (rule fold_requireTempMem_grows)
  show "tempMemSize s = 1024 \<longrightarrow> tempMemSize (snd (requireTempMem wl 1500 s)) = 2048"
    by (simp add: requireTempMem_short)
  let ?n = "\<lceil>real_of_int sz / 1024\<rceil> * 1024"
  let ?r = "requireTempMem wl sz s"
  show "tempMemSize s < sz \<longrightarrow>
        tempMemSize (snd ?r) = ?n
        \<and> native_log (snd ?r)
            = native_log s @ (if tempMem s \<noteq> 0 then [Free (tempMem s)] else []) @ [Malloc ?n]
        \<and> tempMem (snd ?r)
            = fst (call_native wl (Malloc ?n)
                     (if tempMem s \<noteq> 0 then snd (call_native wl (Free (tempMem s)) s)
                      else s))
        \<and> (fst ?r = None \<longrightarrow>
             tempMemFloat (snd ?r) = \<lparr>byteOffset = tempMem (snd ?r), view_length = js_shr ?n 2\<rparr>
             \<and> tempMemInt (snd ?r) = \<lparr>byteOffset = tempMem (snd ?r), view_length = js_shr ?n 2\<rparr>
             \<and> tempMemUint32 (snd ?r)
               = \<lparr>byteOffset = tempMem (snd ?r), view_length = js_shr ?n 2\<rparr>
             \<and> tempMemUint16 (snd ?r)
               = \<lparr>byteOffset = tempMem (snd ?r), view_length = js_shr ?n 1\<rparr>
             \<and> tempMemUint8 (snd ?r) = \<lparr>byteOffset = tempMem (snd ?r), view_length = ?n\<rparr>)
        \<and> (0 \<le> sz \<and> ?n < 2 ^ 31 \<and> tempMem (snd ?r) mod 4 = 0 \<and> 0 \<le> tempMem (snd ?r)
             \<and> tempMem (snd ?r) + ?n \<le> int (heap_bytes (HEAP (snd ?r)))
             \<longrightarrow> fst ?r = None)"
  proof
    assume lt: "tempMemSize s < sz"
    have r: "?r = allocateTempMemory wl ?n s" using lt by (rule requireTempMem_short)
    have ge: "sz \<le> ?n" using Math_ceil_div_1024_ge [of sz] by (simp add: Math_ceil_div_def)
    show "tempMemSize (snd ?r) = ?n
        \<and> native_log (snd ?r)
            = native_log s @ (if tempMem s \<noteq> 0 then [Free (tempMem s)] else []) @ [Malloc ?n]
        \<and> tempMem (snd ?r)
            = fst (call_native wl (Malloc ?n)
                     (if tempMem s \<noteq> 0 then snd (call_native wl (Free (tempMem s)) s)
                      else s))
        \<and> (fst ?r = None \<longrightarrow>
             tempMemFloat (snd ?r) = \<lparr>byteOffset = tempMem (snd ?r), view_length = js_shr ?n 2\<rparr>
             \<and> tempMemInt (snd ?r) = \<lparr>byteOffset = tempMem (snd ?r), view_length = js_shr ?n 2\<rparr>
             \<and> tempMemUint32 (snd ?r)
               = \<lparr>byteOffset = tempMem (snd ?r), view_length = js_shr ?n 2\<rparr>
             \<and> tempMemUint16 (snd ?r)
               = \<lparr>byteOffset = tempMem (snd ?r), view_length = js_shr ?n 1\<rparr>
             \<and> tempMemUint8 (snd ?r) = \<lparr>byteOffset = tempMem (snd ?r), view_length = ?n\<rparr>)
        \<and> (0 \<le> sz \<and> ?n < 2 ^ 31 \<and> tempMem (snd ?r) mod 4 = 0 \<and> 0 \<le> tempMem (snd ?r)
             \<and> tempMem (snd ?r) + ?n \<le> int (heap_bytes (HEAP (snd ?r)))
             \<longrightarrow> fst ?r = None)"
      unfolding r
    proof (intro conjI impI)
      show "tempMemSize (snd (allocateTempMemory wl ?n s)) = ?n" by simp
      show "native_log (snd (allocateTempMemory wl ?n s))
            = native_log s @ (if tempMem s \<noteq> 0 then [Free (tempMem s)] else []) @ [Malloc ?n]"
        by (rule native_log_allocateTempMemory)
      show "tempMem (snd (allocateTempMemory wl ?n s))
            = fst (call_native wl (Malloc ?n)
                     (if tempMem s \<noteq> 0 then snd (call_native wl (Free (tempMem s)) s)
                      else s))"
        by (rule tempMem_allocateTempMemory)
      show "fst (allocateTempMemory wl ?n s) = None"
        if "0 \<le> sz \<and> ?n < 2 ^ 31 \<and> tempMem (snd (allocateTempMemory wl ?n s)) mod 4 = 0
            \<and> 0 \<le> tempMem (snd (allocateTempMemory wl ?n s))
            \<and> tempMem (snd (allocateTempMemory wl ?n s)) + ?n
                \<le> int (heap_bytes (HEAP (snd (allocateTempMemory wl ?n s))))"
        using that ge by (intro allocateTempMemory_fits) linarith+
    qed (use allocateTempMemory_views [of wl ?n s] in blast)+
  qed
qed


lemma grow_started:
  "requireTempMem idle_native 1500 started
   = (None,
      started
        \<lparr>tempMem := 4112, tempMemSize := 2048,
         tempMemFloat := \<lparr>byteOffset = 4112, view_length = 512\<rparr>,
         tempMemInt := \<lparr>byteOffset = 4112, view_length = 512\<rparr>,
         tempMemUint32 := \<lparr>byteOffset = 4112, view_length = 512\<rparr>,
         tempMemUint16 := \<lparr>byteOffset = 4112, view_length = 1024\<rparr>,
         tempMemUint8 := \<lparr>byteOffset = 4112, view_length = 2048\<rparr>,
         native_log := [Malloc 1024, Free 4096, Malloc 2048]\<rparr>)"
  unfolding started_def init_idle snd_conv
  by (simp add: requireTempMem_def Math_ceil_div_def allocateTempMemory_def call_native_def
        idle_native_def updateTempMemory_def new_typed_array_def js_shr_def module_start_def
        Let_def)

theorem requireTempMem_capacity_witness:
  "tempMemSize started = 1024
   \<and> (1000 \<le> tempMemSize started \<and> requireTempMem idle_native 1000 started = (None, started))
   \<and> tempMemSize started < 1500
   \<and> tempMemSize (snd (requireTempMem idle_native 1500 started)) = 2048
   \<and> native_log (snd (requireTempMem idle_native 1500 started))
       = native_log started @ [Free 4096, Malloc 2048]
   \<and> tempMem (snd (requireTempMem idle_native 1500 started)) = 4112
   \<and> (0::int) \<le> 1500 \<and> (2048::int) < 2 ^ 31 \<and> (4112::int) mod 4 = 0
   \<and> 4112 + 2048 \<le> int (heap_bytes (HEAP (snd (requireTempMem idle_native 1500 started))))
   \<and> fst (requireTempMem idle_native 1500 started) = None
   \<and> tempMemFloat (snd (requireTempMem idle_native 1500 started))
       = \<lparr>byteOffset = 4112, view_length = 512\<rparr>
   \<and> tempMemUint8 (snd (requireTempMem idle_native 1500 started))
       = \<lparr>byteOffset = 4112, view_length = 2048\<rparr>"
proof -
  have h: "heap_bytes (HEAP (snd (requireTempMem idle_native 1500 started))) = 65536"
    and p: "tempMem (snd (requireTempMem idle_native 1500 started)) = 4112"
    by (simp_all add: grow_started started_eval)
  have j: "js_shr 2048 2 = 512" by (simp add: js_shr_def)
  show ?thesis
    using requireTempMem_capacity [of 1000 started idle_native "[]"]
          requireTempMem_capacity [of 1500 started idle_native "[]"]
    by (simp add: started_eval h p j)
qed

section \<open>Identity caches\<close>

lemma wrapObject_cached:
  "ObjectCache s h = Some r \<Longrightarrow>
     wrapObject h s = (r, s\<lparr>objects := (objects s)(r := (objects s r)\<lparr>objectId := Id h\<rparr>)\<rparr>)"
  by (simp add: wrapObject_def)

lemma wrapObject_caches:
  "ObjectCache (snd (wrapObject h s)) h = Some (fst (wrapObject h s))"
  by (simp add: wrapObject_def new_Object_def Let_def split: option.split)

lemma wrapObject_objectId:
  "objectId (objects (snd (wrapObject h s)) (fst (wrapObject h s))) = Id h"
  by (simp add: wrapObject_def new_Object_def Let_def split: option.split)

lemma wrapObject_twice:
  "wrapObject h (snd (wrapObject h s)) = wrapObject h s"
proof -
  obtain r s1 where w: "wrapObject h s = (r, s1)" by (cases "wrapObject h s")
  have c: "ObjectCache s1 h = Some r" using wrapObject_caches [of h s] w by simp
  have o: "objectId (objects s1 r) = Id h" using wrapObject_objectId [of h s] w by simp
  have "(objects s1 r)\<lparr>objectId := Id h\<rparr> = objects s1 r" using o by simp
  then have "wrapObject h s1 = (r, s1)" using wrapObject_cached [OF c] by simp
  then show ?thesis using w by simp
qed

lemma construct_component_resolves:
  assumes "type_resolves wlobj ty"
  shows "\<exists>r s'. construct_component wlobj ty m c s = (Inr r, s')"
  using assms
  by (auto simp: construct_component_def type_resolves_def native_type_names_def Let_def
        new_Component_def split: option.splits)

lemma wrapComponent_cached:
  assumes "0 \<le> c" "ComponentCache s m = Some cm" "cm c = Some r"
  shows "wrapComponent wlobj ty m c s = (Inr (Some r), s)"
  using assms by (simp add: wrapComponent_def)

lemma wrapComponent_returns_cached:
  assumes "0 \<le> c" "wrapComponent wlobj ty m c s = (Inr res, s1)"
  shows "\<exists>r cm. res = Some r \<and> ComponentCache s1 m = Some cm \<and> cm c = Some r"
  using assms
  by (auto simp: wrapComponent_def Let_def split: option.splits prod.splits sum.splits
        dest: sym)

lemma wrapComponent_resolves:
  assumes "0 \<le> c" "type_resolves wlobj ty"
  shows "\<exists>res s1. wrapComponent wlobj ty m c s = (Inr res, s1)"
proof -
  obtain c0 s0 where cs: "(case ComponentCache s m of Some c0 \<Rightarrow> (c0, s)
      | None \<Rightarrow> (Map.empty, s\<lparr>ComponentCache := (ComponentCache s)(m \<mapsto> Map.empty)\<rparr>)) = (c0, s0)"
    by (cases "ComponentCache s m") auto
  obtain r s' where k: "construct_component wlobj ty m c s0 = (Inr r, s')"
    using construct_component_resolves [OF assms(2)] by blast
  show ?thesis
    using assms(1) cs k by (cases "c0 c") (auto simp: wrapComponent_def Let_def)
qed

lemma wrapComponent_twice:
  assumes "0 \<le> c" "wrapComponent wlobj ty m c s = (Inr res, s1)"
  shows "\<exists>r. res = Some r \<and> wrapComponent wlobj ty' m c s1 = (Inr (Some r), s1)"
proof -
  obtain r cm where "res = Some r" "ComponentCache s1 m = Some cm" "cm c = Some r"
    using wrapComponent_returns_cached [OF assms] by blast
  then show ?thesis using wrapComponent_cached [OF assms(1)] by simp
qed

lemma wrapComponent_unknown_type:
  "fst (wrapComponent no_registry ''nothing'' 2 5 started)
     = Inl (TypeError ''constructor is not a constructor'')"
  by (simp add: wrapComponent_def construct_component_def no_registry_def started_eval)

text \<open>
  C1. Wrapping a handle twice returns the same wrapper, by reference: the second
  \<^verbatim>\<open>_wrapObject(h)\<close> returns the reference the first returned and leaves the state as
  the first left it, with the wrapper's \<^verbatim>\<open>objectId\<close> equal to \<open>h\<close>; a wrapper found in
  the cache is returned with its \<^verbatim>\<open>objectId\<close> set to \<open>h\<close> again, whatever it held.
  For a component id \<open>c \<ge> 0\<close>, whenever \<^verbatim>\<open>_wrapComponent\<close> returns, it returns an
  instance, and a second call for the same manager and id, under any type name, returns
  that same instance from the cache and changes nothing; and it does return for every
  type name that resolves.
\<close>

theorem wrap_identity:
  "wrapObject h (snd (wrapObject h s)) = wrapObject h s
   \<and> objectId (objects (snd (wrapObject h s)) (fst (wrapObject h s))) = Id h
   \<and> (ObjectCache s h = Some r \<longrightarrow>
        fst (wrapObject h s) = r \<and> objectId (objects (snd (wrapObject h s)) r) = Id h)
   \<and> (0 \<le> c \<and> wrapComponent wlobj ty m c s = (Inr res, s1) \<longrightarrow>
        (\<exists>w. res = Some w \<and> wrapComponent wlobj ty' m c s1 = (Inr (Some w), s1)))
   \<and> (0 \<le> c \<and> type_resolves wlobj ty \<longrightarrow>
        (\<exists>w s2. wrapComponent wlobj ty m c s = (Inr (Some w), s2)
                \<and> wrapComponent wlobj ty m c s2 = (Inr (Some w), s2)))"
proof (intro conjI impI)
  show "wrapObject h (snd (wrapObject h s)) = wrapObject h s"
    by (rule wrapObject_twice)
  show "objectId (objects (snd (wrapObject h s)) (fst (wrapObject h s))) = Id h"
    by (rule wrapObject_objectId)
  show "fst (wrapObject h s) = r" if "ObjectCache s h = Some r"
    using wrapObject_cached [OF that] by simp
  show "objectId (objects (snd (wrapObject h s)) r) = Id h" if "ObjectCache s h = Some r"
    using wrapObject_cached [OF that] by simp
  show "\<exists>w. res = Some w \<and> wrapComponent wlobj ty' m c s1 = (Inr (Some w), s1)"
    if "0 \<le> c \<and> wrapComponent wlobj ty m c s = (Inr res, s1)"
    using that wrapComponent_twice by blast
  show "\<exists>w s2. wrapComponent wlobj ty m c s = (Inr (Some w), s2)
                \<and> wrapComponent wlobj ty m c s2 = (Inr (Some w), s2)"
    if h: "0 \<le> c \<and> type_resolves wlobj ty"
  proof -
    obtain res' s2 where w: "wrapComponent wlobj ty m c s = (Inr res', s2)"
      using wrapComponent_resolves h by blast
    obtain w' where "res' = Some w'" "wrapComponent wlobj ty m c s2 = (Inr (Some w'), s2)"
      using wrapComponent_twice [OF _ w] h by blast
    then show ?thesis using w by blast
  qed
qed

theorem wrap_identity_witness:
  "ObjectCache (snd (wrapObject 7 started)) 7 = Some 0
   \<and> fst (wrapObject 7 (snd (wrapObject 7 started))) = 0
   \<and> objectId (objects (snd (wrapObject 7 (snd (wrapObject 7 started)))) 0) = Id 7
   \<and> (0::int) \<le> 5 \<and> type_resolves no_registry ''mesh''
   \<and> (\<exists>w s2. wrapComponent no_registry ''mesh'' 2 5 started = (Inr (Some w), s2)
              \<and> wrapComponent no_registry ''mesh'' 2 5 s2 = (Inr (Some w), s2))
   \<and> wrapComponent no_registry ''mesh'' 2 5 mesh_cached = (Inr (Some 0), mesh_cached)
   \<and> wrapComponent no_registry ''nothing'' 2 5 mesh_cached = (Inr (Some 0), mesh_cached)"
proof -
  have c: "ObjectCache (snd (wrapObject 7 started)) 7 = Some 0"
    by (simp add: wrapObject_def new_Object_def started_eval)
  have t: "(0::int) \<le> 5 \<and> type_resolves no_registry ''mesh''"
    by (simp add: type_resolves_def native_type_names_def)
  have f: "fst (wrapComponent no_registry ''mesh'' 2 5 started) = Inr (Some 0)"
    by (simp add: wrapComponent_def construct_component_def new_Component_def started_eval
          Let_def)
  then have g: "wrapComponent no_registry ''mesh'' 2 5 started = (Inr (Some 0), mesh_cached)"
    by (simp add: mesh_cached_def prod_eq_iff)
  show ?thesis
    using wrap_identity [where h = 7 and s = "snd (wrapObject 7 started)" and r = 0
            and c = 5 and wlobj = no_registry and ty = "''mesh''" and m = 2
            and res = "Some 0" and ?s1.0 = mesh_cached and ty' = "''mesh''"]
          wrap_identity [where h = 7 and s = started and r = 0
            and c = 5 and wlobj = no_registry and ty = "''mesh''" and m = 2
            and res = "Some 0" and ?s1.0 = mesh_cached and ty' = "''nothing''"]
          c t g
    by simp
qed

section \<open>Mesh attribute accessor: the length guard\<close>

lemma js_rem_pos: "0 < c \<Longrightarrow> js_rem n c = Some (n mod c)"
  by (simp add: js_rem_def)

lemma tempBufferGetter_eq:
  "tempBufferGetter wl bt n s
   = (case requireTempMem wl (n * BYTES_PER_ELEMENT bt) s of
        (Some e, s1) \<Rightarrow> (Inl e, s1)
      | (None, s1) \<Rightarrow>
          (Inr (case bt of Float32Array \<Rightarrow> tempMemFloat s1 | Uint16Array \<Rightarrow> tempMemUint16 s1),
           s1))"
  by (cases bt) (simp_all add: getTempBufferF32_def getTempBufferU16_def split: prod.split option.split)

lemma tempBufferGetter_error:
  "tempBufferGetter wl bt n s = (Inl e, s1) \<Longrightarrow> \<exists>msg. e = RangeError msg"
  using requireTempMem_error [of wl "n * BYTES_PER_ELEMENT bt" s e]
  by (auto simp: tempBufferGetter_eq split: prod.splits option.splits)

lemma tempBufferGetter_returns:
  "fst (requireTempMem wl (n * BYTES_PER_ELEMENT bt) s) = None \<Longrightarrow>
   \<exists>v s1. tempBufferGetter wl bt n s = (Inr v, s1)"
  by (cases "requireTempMem wl (n * BYTES_PER_ELEMENT bt) s") (simp add: tempBufferGetter_eq)

lemma get_rejects:
  assumes "0 < a_componentCount this" "length out mod a_componentCount this \<noteq> 0"
  shows "MeshAttributeAccessor_get wl this i (Some out) s
         = (Inl (Error (not_a_multiple_msg (length out) (a_componentCount this))), s)"
  using assms by (simp add: MeshAttributeAccessor_get_def js_rem_pos)

lemma get_accepts:
  assumes "0 < a_componentCount this" "length out mod a_componentCount this = 0"
  shows "fst (MeshAttributeAccessor_get wl this i (Some out) s) \<noteq> Inl (Error msg)"
proof (cases "tempBufferGetter wl (a_bufferType this) (int (length out)) s")
  case (Pair r s1)
  show ?thesis
  proof (cases r)
    case (Inl e)
    then obtain m where "e = RangeError m" using tempBufferGetter_error Pair by blast
    then show ?thesis
      using assms Pair Inl by (simp add: MeshAttributeAccessor_get_def js_rem_pos)
  next
    case (Inr dest)
    then show ?thesis
      using assms Pair
      by (simp add: MeshAttributeAccessor_get_def js_rem_pos Let_def split: prod.split)
  qed
qed

lemma get_returns:
  assumes "0 < a_componentCount this" "length out mod a_componentCount this = 0"
    and "fst (requireTempMem wl (int (length out) * BYTES_PER_ELEMENT (a_bufferType this)) s)
         = None"
  shows "\<exists>res. fst (MeshAttributeAccessor_get wl this i (Some out) s) = Inr res"
proof -
  obtain v s1 where "tempBufferGetter wl (a_bufferType this) (int (length out)) s = (Inr v, s1)"
    using tempBufferGetter_returns [OF assms(3)] by blast
  then show ?thesis
    using assms(1,2)
    by (simp add: MeshAttributeAccessor_get_def js_rem_pos Let_def split: prod.split)
qed

text \<open>When growing the temporary memory throws, \<^verbatim>\<open>get\<close> throws the same error.\<close>

lemma get_range_error:
  assumes "0 < a_componentCount this" "length out mod a_componentCount this = 0"
    and "fst (requireTempMem wl (int (length out) * BYTES_PER_ELEMENT (a_bufferType this)) s)
         = Some e"
  shows "fst (MeshAttributeAccessor_get wl this i (Some out) s) = Inl e"
    and "\<exists>msg. e = RangeError msg"
proof -
  show "fst (MeshAttributeAccessor_get wl this i (Some out) s) = Inl e"
    using assms
    by (cases "requireTempMem wl (int (length out) * BYTES_PER_ELEMENT (a_bufferType this)) s")
       (simp add: MeshAttributeAccessor_get_def js_rem_pos tempBufferGetter_eq)
  show "\<exists>msg. e = RangeError msg"
    using assms(3) by (rule requireTempMem_error)
qed

lemma set_rejects:
  assumes "0 < a_componentCount this" "array_length v mod a_componentCount this \<noteq> 0"
  shows "MeshAttributeAccessor_set wl this i v s
         = (Inl (Error (not_a_multiple_msg (array_length v) (a_componentCount this))), s)"
  using assms by (simp add: MeshAttributeAccessor_set_def js_rem_pos)

lemma set_accepts:
  assumes "0 < a_componentCount this" "array_length v mod a_componentCount this = 0"
  shows "fst (MeshAttributeAccessor_set wl this i v s) \<noteq> Inl (Error msg)"
proof (cases v)
  case (OnHeap k vw)
  then show ?thesis
    using assms by (simp add: MeshAttributeAccessor_set_def js_rem_pos Let_def)
next
  case (Plain xs)
  show ?thesis
  proof (cases "tempBufferGetter wl (a_bufferType this) (int (length xs)) s")
    case (Pair r s1)
    show ?thesis
    proof (cases r)
      case (Inl e)
      then obtain m where "e = RangeError m" using tempBufferGetter_error Pair by blast
      then show ?thesis
        using assms Plain Pair Inl
        by (simp add: MeshAttributeAccessor_set_def js_rem_pos Let_def)
    next
      case (Inr dest)
      then show ?thesis
        using assms Plain Pair
        by (auto simp: MeshAttributeAccessor_set_def js_rem_pos Let_def typed_array_set_def
              split: sum.split)
    qed
  qed
qed

lemma not_a_multiple_msg_phrase:
  "\<exists>pre post. not_a_multiple_msg len count
      = pre @ ''is not a multiple of the attribute vector components'' @ post"
  unfolding not_a_multiple_msg_def
  by (intro exI [of _ "''out.length, '' @ string_of_nat len @ '' ''"]
            exI [of _ "'', '' @ string_of_nat count"]) simp

text \<open>
  C3, as the code has it. For a component count among 1, 2, 3, 4 and every index: when
  the length of \<^verbatim>\<open>out\<close> or of the values is not a multiple of the count, \<^verbatim>\<open>get\<close> and
  \<^verbatim>\<open>set\<close> throw the error whose message says so, and leave the state, with its log of
  native calls, as it was; when the length is a multiple of the count, zero included,
  that error is not raised, and \<^verbatim>\<open>get\<close> returns whenever the temporary memory it asks
  for is there.
\<close>

theorem accessor_length_guard:
  assumes "a_componentCount this \<in> {1, 2, 3, 4}"
  shows "(length out mod a_componentCount this \<noteq> 0 \<longrightarrow>
            MeshAttributeAccessor_get wl this i (Some out) s
            = (Inl (Error (not_a_multiple_msg (length out) (a_componentCount this))), s))
         \<and> (array_length v mod a_componentCount this \<noteq> 0 \<longrightarrow>
            MeshAttributeAccessor_set wl this i v s
            = (Inl (Error (not_a_multiple_msg (array_length v) (a_componentCount this))), s))
         \<and> (length out mod a_componentCount this = 0 \<longrightarrow>
            (\<forall>msg. fst (MeshAttributeAccessor_get wl this i (Some out) s) \<noteq> Inl (Error msg))
            \<and> (fst (requireTempMem wl
                       (int (length out) * BYTES_PER_ELEMENT (a_bufferType this)) s) = None
               \<longrightarrow> (\<exists>res. fst (MeshAttributeAccessor_get wl this i (Some out) s) = Inr res)))
         \<and> (array_length v mod a_componentCount this = 0 \<longrightarrow>
            (\<forall>msg. fst (MeshAttributeAccessor_set wl this i v s) \<noteq> Inl (Error msg)))
         \<and> (\<exists>pre post. not_a_multiple_msg len (a_componentCount this)
               = pre @ ''is not a multiple of the attribute vector components'' @ post)"
proof -
  have pos: "0 < a_componentCount this" using assms by auto
  show ?thesis
  proof (intro conjI impI allI)
    show "MeshAttributeAccessor_get wl this i (Some out) s
          = (Inl (Error (not_a_multiple_msg (length out) (a_componentCount this))), s)"
      if "length out mod a_componentCount this \<noteq> 0"
      using that by (rule get_rejects [OF pos])
    show "MeshAttributeAccessor_set wl this i v s
          = (Inl (Error (not_a_multiple_msg (array_length v) (a_componentCount this))), s)"
      if "array_length v mod a_componentCount this \<noteq> 0"
      using that by (rule set_rejects [OF pos])
    show "fst (MeshAttributeAccessor_get wl this i (Some out) s) \<noteq> Inl (Error msg)"
      if "length out mod a_componentCount this = 0" for msg
      using that by (rule get_accepts [OF pos])
    show "\<exists>res. fst (MeshAttributeAccessor_get wl this i (Some out) s) = Inr res"
      if "length out mod a_componentCount this = 0"
        and "fst (requireTempMem wl
                    (int (length out) * BYTES_PER_ELEMENT (a_bufferType this)) s) = None"
      using that by (rule get_returns [OF pos])
    show "fst (MeshAttributeAccessor_set wl this i v s) \<noteq> Inl (Error msg)"
      if "array_length v mod a_componentCount this = 0" for msg
      using that by (rule set_accepts [OF pos])
    show "\<exists>pre post. not_a_multiple_msg len (a_componentCount this)
            = pre @ ''is not a multiple of the attribute vector components'' @ post"
      by (rule not_a_multiple_msg_phrase)
  qed
qed

theorem accessor_length_guard_witness:
  "a_componentCount position_accessor \<in> {1, 2, 3, 4}
   \<and> length [JNum 0, JNum 0, JNum 0, JNum 0] mod a_componentCount position_accessor \<noteq> 0
   \<and> MeshAttributeAccessor_get idle_native position_accessor 1
        (Some [JNum 0, JNum 0, JNum 0, JNum 0]) started
      = (Inl (Error ''out.length, 4 is not a multiple of the attribute vector components, 3''),
         started)
   \<and> array_length (Plain [1, 2, 3, 4]) mod a_componentCount position_accessor \<noteq> 0
   \<and> MeshAttributeAccessor_set idle_native position_accessor 1 (Plain [1, 2, 3, 4]) started
      = (Inl (Error ''out.length, 4 is not a multiple of the attribute vector components, 3''),
         started)
   \<and> length [JNum 0, JNum 0, JNum 0] mod a_componentCount position_accessor = 0
   \<and> fst (requireTempMem idle_native
             (int (length [JNum 0, JNum 0, JNum 0])
                * BYTES_PER_ELEMENT (a_bufferType position_accessor)) started) = None
   \<and> (\<exists>res. fst (MeshAttributeAccessor_get idle_native position_accessor 1
                    (Some [JNum 0, JNum 0, JNum 0]) started) = Inr res)
   \<and> array_length (Plain [1, 2, 3]) mod a_componentCount position_accessor = 0
   \<and> fst (MeshAttributeAccessor_set idle_native position_accessor 1 (Plain [1, 2, 3]) started)
      \<noteq> Inl (Error ''out.length, 3 is not a multiple of the attribute vector components, 3'')"
proof -
  have c: "a_componentCount position_accessor = 3"
    by (simp add: position_accessor_def new_MeshAttributeAccessor_def)
  have m: "not_a_multiple_msg 4 3
           = ''out.length, 4 is not a multiple of the attribute vector components, 3''"
    by (simp add: not_a_multiple_msg_def digit_def)
  have h: "a_componentCount position_accessor \<in> {1, 2, 3, 4}" using c by simp
  have l4: "length [JNum 0, JNum 0, JNum 0, JNum 0] = 4"
    and a4: "array_length (Plain [1, 2, 3, 4]) = 4"
    and l3: "length [JNum 0, JNum 0, JNum 0] = 3"
    and a3: "array_length (Plain [1, 2, 3]) = 3"
    by simp_all
  have r: "fst (requireTempMem idle_native
                  (int 3 * BYTES_PER_ELEMENT (a_bufferType position_accessor)) started) = None"
    by (simp add: requireTempMem_enough started_eval position_accessor_def
          new_MeshAttributeAccessor_def)
  show ?thesis
    using accessor_length_guard [OF h, of "[JNum 0, JNum 0, JNum 0, JNum 0]" idle_native 1
            started "Plain [1, 2, 3, 4]" 4, unfolded l4 a4 c]
          accessor_length_guard [OF h, of "[JNum 0, JNum 0, JNum 0]" idle_native 1
            started "Plain [1, 2, 3]" 3, unfolded l3 a3 c]
          r
    unfolding l4 a4 l3 a3 c
    by (simp add: m)
qed

text \<open>
  The claim as worded, with a positive multiple, fails on an empty array: its length is
  no positive multiple of the count, and both methods run through to their native call
  and return.
\<close>

theorem accessor_empty_array_counterexample:
  "a_componentCount position_accessor \<in> {1, 2, 3, 4}
   \<and> \<not> positive_multiple (length ([] :: jsvalue list)) (a_componentCount position_accessor)
   \<and> fst (MeshAttributeAccessor_get idle_native position_accessor 0 (Some []) started) = Inr []
   \<and> \<not> positive_multiple (array_length (Plain [])) (a_componentCount position_accessor)
   \<and> fst (MeshAttributeAccessor_set idle_native position_accessor 0 (Plain []) started)
      = Inr ()"
  by (simp add: positive_multiple_def MeshAttributeAccessor_get_def
        MeshAttributeAccessor_set_def position_accessor_def new_MeshAttributeAccessor_def
        js_rem_def Let_def typed_array_set_def getTempBufferF32_def requireTempMem_enough
        started_eval split: prod.split)

section \<open>Material: dynamic property dispatch\<close>

lemma demo_material_definition:
  "material_definition demo_engine demo_material = Some demo_definition"
  by (simp add: material_definition_def demo_engine_def demo_material_def
        Material_of_index_def prop_get_def)

lemma demo_material_index: "prop_get demo_material ''_index'' = JNum 5"
  by (simp add: demo_material_def Material_of_index_def prop_get_def)

lemma demo_params:
  "demo_definition ''diffuseTexture''
     = Some \<lparr>p_index = 0, p_type = \<lparr>pt_type = ParamSampler, componentCount = 1\<rparr>\<rparr>"
  "demo_definition ''diffuseColor''
     = Some \<lparr>p_index = 1, p_type = \<lparr>pt_type = ParamFloat, componentCount = 4\<rparr>\<rparr>"
  "demo_definition ''shininess''
     = Some \<lparr>p_index = 2, p_type = \<lparr>pt_type = ParamFloat, componentCount = 1\<rparr>\<rparr>"
  "demo_definition ''font''
     = Some \<lparr>p_index = 3, p_type = \<lparr>pt_type = ParamFont, componentCount = 1\<rparr>\<rparr>"
  "demo_definition ''name'' = None"
  "demo_definition ''shader'' = None"
  by (simp_all add: demo_definition_def)

text \<open>
  C4. For a property name that the definition of the material gives a parameter of type
  \<^verbatim>\<open>Font\<close>, assigning any value throws the error "Setting font properties is currently
  unsupported." and changes nothing: no native call is made, no state is written.
\<close>

theorem font_set_unsupported:
  assumes "material_definition wlobj target = Some definition"
    and "definition prop = Some param"
    and "pt_type (p_type param) = ParamFont"
  shows "Material_set wlobj wl target prop val s
         = (Inl (Error ''Setting font properties is currently unsupported.''), s)"
  using assms by (simp add: Material_set_def Let_def)

theorem font_set_unsupported_witness:
  "material_definition demo_engine demo_material = Some demo_definition
   \<and> demo_definition ''font''
       = Some \<lparr>p_index = 3, p_type = \<lparr>pt_type = ParamFont, componentCount = 1\<rparr>\<rparr>
   \<and> Material_set demo_engine idle_native demo_material ''font'' (JNum 2) started
       = (Inl (Error ''Setting font properties is currently unsupported.''), started)"
  using font_set_unsupported [of demo_engine demo_material demo_definition "''font''"
          "\<lparr>p_index = 3, p_type = \<lparr>pt_type = ParamFont, componentCount = 1\<rparr>\<rparr>"
          idle_native "JNum 2" started]
  by (simp add: demo_material_definition demo_params)

lemma Texture_id_not_texture:
  "(case Texture_id t of JTexture t' \<Rightarrow> Texture_id t' | _ \<Rightarrow> Texture_id t) = Texture_id t"
  by (cases "t_id t") (simp_all add: Texture_id_def)

lemma set_uint_result:
  assumes "material_definition wlobj target = Some definition"
    and "definition prop = Some param"
    and "pt_type (p_type param) \<in> {ParamUnsignedInt, ParamInt, ParamSampler}"
  shows "Material_set wlobj wl target prop val s
         = (Inr target,
            snd (call_native wl
                   (Wl_material_set_param_value_uint (prop_get target ''_index'') (p_index param)
                      (case val of JTexture t \<Rightarrow> Texture_id t | _ \<Rightarrow> val)) s))"
  using assms by (auto simp: Material_set_def Let_def)

text \<open>
  C5, as the code has it. For a parameter of type \<^verbatim>\<open>Sampler\<close>, setting it with a texture
  wrapper \<open>t\<close> does exactly what setting it with \<open>t.id\<close> does: the native setter is
  called with the handle taken out of the wrapper. Every value is accepted: one that is
  not a texture wrapper, a number or not, is passed to the native setter as it is, and
  the handler raises no error.
\<close>

theorem sampler_set_forwards:
  assumes "material_definition wlobj target = Some definition"
    and "definition prop = Some param"
    and "pt_type (p_type param) = ParamSampler"
  shows "Material_set wlobj wl target prop (JTexture t) s
         = Material_set wlobj wl target prop (Texture_id t) s
       \<and> native_log (snd (Material_set wlobj wl target prop (JTexture t) s))
         = native_log s @ [Wl_material_set_param_value_uint (prop_get target ''_index'')
                             (p_index param) (Texture_id t)]
       \<and> fst (Material_set wlobj wl target prop val s) = Inr target
       \<and> ((\<forall>t'. val \<noteq> JTexture t') \<longrightarrow>
            native_log (snd (Material_set wlobj wl target prop val s))
            = native_log s @ [Wl_material_set_param_value_uint (prop_get target ''_index'')
                                (p_index param) val])"
proof -
  have k: "pt_type (p_type param) \<in> {ParamUnsignedInt, ParamInt, ParamSampler}"
    using assms(3) by simp
  note r = set_uint_result [OF assms(1,2) k]
  show ?thesis
    by (cases val) (simp_all add: r Texture_id_not_texture)
qed

theorem sampler_set_forwards_witness:
  "material_definition demo_engine demo_material = Some demo_definition
   \<and> demo_definition ''diffuseTexture''
       = Some \<lparr>p_index = 0, p_type = \<lparr>pt_type = ParamSampler, componentCount = 1\<rparr>\<rparr>
   \<and> Material_set demo_engine idle_native demo_material ''diffuseTexture''
         (JTexture \<lparr>t_id = Id 9\<rparr>) started
       = Material_set demo_engine idle_native demo_material ''diffuseTexture'' (JNum 9) started
   \<and> native_log (snd (Material_set demo_engine idle_native demo_material ''diffuseTexture''
                         (JTexture \<lparr>t_id = Id 9\<rparr>) started))
       = native_log started @ [Wl_material_set_param_value_uint (JNum 5) 0 (JNum 9)]
   \<and> (\<forall>t'. JArray [1, 2] \<noteq> JTexture t')
   \<and> native_log (snd (Material_set demo_engine idle_native demo_material ''diffuseTexture''
                         (JArray [1, 2]) started))
       = native_log started @ [Wl_material_set_param_value_uint (JNum 5) 0 (JArray [1, 2])]"
proof -
  have k: "pt_type (p_type \<lparr>p_index = 0, p_type = \<lparr>pt_type = ParamSampler,
             componentCount = 1\<rparr>\<rparr>) = ParamSampler"
    by simp
  note T = sampler_set_forwards [OF demo_material_definition demo_params(1) k,
             of idle_native "\<lparr>t_id = Id 9\<rparr>" started "JArray [1, 2]"]
  have a: "Material_set demo_engine idle_native demo_material ''diffuseTexture''
             (JTexture \<lparr>t_id = Id 9\<rparr>) started
           = Material_set demo_engine idle_native demo_material ''diffuseTexture'' (JNum 9)
               started"
    using T [THEN conjunct1] by (simp add: Texture_id_def)
  have b: "native_log (snd (Material_set demo_engine idle_native demo_material
                              ''diffuseTexture'' (JTexture \<lparr>t_id = Id 9\<rparr>) started))
           = native_log started @ [Wl_material_set_param_value_uint (JNum 5) 0 (JNum 9)]"
    using T [THEN conjunct2, THEN conjunct1]
    by (simp add: Texture_id_def demo_material_index)
  have c: "native_log (snd (Material_set demo_engine idle_native demo_material
                              ''diffuseTexture'' (JArray [1, 2]) started))
           = native_log started
               @ [Wl_material_set_param_value_uint (JNum 5) 0 (JArray [1, 2])]"
    using T [THEN conjunct2, THEN conjunct2, THEN conjunct2]
    by (simp add: demo_material_index)
  show ?thesis
    using a b c demo_material_definition demo_params(1) by blast
qed

text \<open>
  The claim's type error does not exist: \<^verbatim>\<open>null\<close>, neither a number nor a texture
  wrapper, is accepted and handed to the native setter.
\<close>

theorem sampler_set_null_counterexample:
  "fst (Material_set demo_engine idle_native demo_material ''diffuseTexture'' JNull started)
     = Inr demo_material
   \<and> native_log (snd (Material_set demo_engine idle_native demo_material ''diffuseTexture''
                         JNull started))
     = native_log started @ [Wl_material_set_param_value_uint (JNum 5) 0 JNull]"
  by (simp add: Material_set_def demo_material_definition demo_params demo_material_index)












lemma property_read_own:
  "target prop = Some v \<Longrightarrow> property_read wl target prop s = (JValue v, s)"
  by (simp add: property_read_def)

lemma property_read_absent:
  "target prop = None \<Longrightarrow> prop \<notin> set inherited_names \<Longrightarrow>
   property_read wl target prop s = (JValue JUndefined, s)"
  by (simp add: property_read_def inherited_names_def)

lemma property_read_shader:
  "target ''shader'' = None \<Longrightarrow>
   property_read wl target ''shader'' s
   = (JString (UTF8ToString wl
                 (HEAP (snd (call_native wl
                               (Wl_material_get_shader (prop_get target ''_index'')) s)))
                 (fst (call_native wl
                         (Wl_material_get_shader (prop_get target ''_index'')) s))),
      snd (call_native wl (Wl_material_get_shader (prop_get target ''_index'')) s))"
  by (simp add: property_read_def split: prod.split)

text \<open>
  C7, as the code has it. For a name in the parameter table of the material's
  definition, a read for which the native runtime answers "unset"
  (\<^verbatim>\<open>_wl_material_get_param_value\<close> returns 0) gives \<^verbatim>\<open>undefined\<close>: not an error,
  not a number. For a name that is not in the table, the read is the ordinary read of the
  property on the instance: the instance's own property when it has one, with nothing
  else touched; \<^verbatim>\<open>undefined\<close> when the name is inherited from nowhere either; and for
  the inherited \<^verbatim>\<open>shader\<close> the string the getter makes of the native runtime's answer,
  after a native call.
\<close>

theorem material_get_unset:
  assumes "material_definition wlobj target = Some definition"
  shows "(definition prop = Some param
          \<and> fst (native_fn wl (native_log s)
                    (Wl_material_get_param_value (prop_get target ''_index'') (p_index param)
                       (tempMem s)) (HEAP s)) = 0
          \<longrightarrow> fst (Material_get wlobj wl target prop s) = Inr (JValue JUndefined))
       \<and> (definition prop = None
          \<longrightarrow> Material_get wlobj wl target prop s
              = (Inr (fst (property_read wl target prop s)),
                 snd (property_read wl target prop s)))
       \<and> (definition prop = None \<and> target prop = Some v
          \<longrightarrow> Material_get wlobj wl target prop s = (Inr (JValue v), s))
       \<and> (definition prop = None \<and> target prop = None \<and> prop \<notin> set inherited_names
          \<longrightarrow> Material_get wlobj wl target prop s = (Inr (JValue JUndefined), s))
       \<and> (definition ''shader'' = None \<and> target ''shader'' = None
          \<longrightarrow> (\<exists>str. fst (Material_get wlobj wl target ''shader'' s) = Inr (JString str))
              \<and> native_log (snd (Material_get wlobj wl target ''shader'' s))
                  = native_log s @ [Wl_material_get_shader (prop_get target ''_index'')])"
proof -
  have miss: "Material_get wlobj wl target p s
              = (Inr (fst (property_read wl target p s)), snd (property_read wl target p s))"
    if "definition p = None" for p
    using assms that by (simp add: Material_get_def split: prod.split)
  show ?thesis
  proof (intro conjI impI)
    show "fst (Material_get wlobj wl target prop s) = Inr (JValue JUndefined)"
      if "definition prop = Some param
          \<and> fst (native_fn wl (native_log s)
                    (Wl_material_get_param_value (prop_get target ''_index'') (p_index param)
                       (tempMem s)) (HEAP s)) = 0"
      using assms that
      by (auto simp: Material_get_def Let_def call_native_def split: prod.splits)
    show "Material_get wlobj wl target prop s
          = (Inr (fst (property_read wl target prop s)), snd (property_read wl target prop s))"
      if "definition prop = None"
      using that by (rule miss)
    show "Material_get wlobj wl target prop s = (Inr (JValue v), s)"
      if "definition prop = None \<and> target prop = Some v"
      using that miss [where p = "prop"] by (simp add: property_read_own)
    show "Material_get wlobj wl target prop s = (Inr (JValue JUndefined), s)"
      if "definition prop = None \<and> target prop = None \<and> prop \<notin> set inherited_names"
      using that miss [where p = "prop"] by (simp add: property_read_absent)
    show "\<exists>str. fst (Material_get wlobj wl target ''shader'' s) = Inr (JString str)"
      if "definition ''shader'' = None \<and> target ''shader'' = None"
      using that miss [of "''shader''"] by (simp add: property_read_shader)
    show "native_log (snd (Material_get wlobj wl target ''shader'' s))
          = native_log s @ [Wl_material_get_shader (prop_get target ''_index'')]"
      if "definition ''shader'' = None \<and> target ''shader'' = None"
      using that miss [of "''shader''"] by (simp add: property_read_shader)
  qed
qed

lemma demo_material_own:
  "demo_material ''shader'' = None" "demo_material ''name'' = None"
  "demo_material ''_index'' = Some (JNum 5)"
  by (simp_all add: demo_material_def Material_of_index_def)

theorem material_get_unset_witness:
  "material_definition demo_engine demo_material = Some demo_definition
   \<and> demo_definition ''shininess''
       = Some \<lparr>p_index = 2, p_type = \<lparr>pt_type = ParamFloat, componentCount = 1\<rparr>\<rparr>
   \<and> fst (native_fn idle_native (native_log started)
            (Wl_material_get_param_value (prop_get demo_material ''_index'') 2 (tempMem started))
            (HEAP started)) = 0
   \<and> fst (Material_get demo_engine idle_native demo_material ''shininess'' started)
       = Inr (JValue JUndefined)
   \<and> demo_definition ''_index'' = None \<and> demo_material ''_index'' = Some (JNum 5)
   \<and> Material_get demo_engine idle_native demo_material ''_index'' started
       = (Inr (JValue (JNum 5)), started)
   \<and> demo_definition ''name'' = None \<and> demo_material ''name'' = None
   \<and> ''name'' \<notin> set inherited_names
   \<and> Material_get demo_engine idle_native demo_material ''name'' started
       = (Inr (JValue JUndefined), started)
   \<and> demo_definition ''shader'' = None \<and> demo_material ''shader'' = None
   \<and> native_log (snd (Material_get demo_engine idle_native demo_material ''shader'' started))
       = native_log started @ [Wl_material_get_shader (JNum 5)]"
proof -
  have i: "demo_definition ''_index'' = None" by (simp add: demo_definition_def)
  have n: "''name'' \<notin> set inherited_names"
    by (simp add: inherited_names_def Object_prototype_functions_def)
  have z: "fst (native_fn idle_native (native_log started)
            (Wl_material_get_param_value (prop_get demo_material ''_index'') 2 (tempMem started))
            (HEAP started)) = 0"
    by (simp add: idle_native_def)
  note T = material_get_unset [OF demo_material_definition]
  have a: "fst (Material_get demo_engine idle_native demo_material ''shininess'' started)
           = Inr (JValue JUndefined)"
    using T [of "''shininess''"
             "\<lparr>p_index = 2, p_type = \<lparr>pt_type = ParamFloat, componentCount = 1\<rparr>\<rparr>"
             idle_native started, THEN conjunct1] z
    by (simp add: demo_params)
  have b: "Material_get demo_engine idle_native demo_material ''_index'' started
           = (Inr (JValue (JNum 5)), started)"
    using T [of "''_index''" _ idle_native started "JNum 5",
             THEN conjunct2, THEN conjunct2, THEN conjunct1] i
    by (simp add: demo_material_own)
  have c: "Material_get demo_engine idle_native demo_material ''name'' started
           = (Inr (JValue JUndefined), started)"
    using T [of "''name''" _ idle_native started,
             THEN conjunct2, THEN conjunct2, THEN conjunct2, THEN conjunct1] n
    by (simp add: demo_material_own demo_params)
  have d: "native_log (snd (Material_get demo_engine idle_native demo_material ''shader''
                              started))
           = native_log started @ [Wl_material_get_shader (JNum 5)]"
    using T [of _ _ idle_native started,
             THEN conjunct2, THEN conjunct2, THEN conjunct2, THEN conjunct2]
    by (simp add: demo_material_own demo_params demo_material_index)
  show ?thesis
    using a b c d i n z demo_material_definition demo_params(3,5,6) demo_material_own
    by simp
qed

text \<open>
  The claim's last part fails for \<^verbatim>\<open>shader\<close>: the name is not in the table and the
  instance stores nothing under it, yet the read gives a string, not \<^verbatim>\<open>undefined\<close>, and
  has called the native runtime.
\<close>

theorem material_get_shader_counterexample:
  "demo_definition ''shader'' = None
   \<and> prop_get demo_material ''shader'' = JUndefined
   \<and> Material_get demo_engine idle_native demo_material ''shader'' started
       = (Inr (JString []),
          started\<lparr>native_log := native_log started @ [Wl_material_get_shader (JNum 5)]\<rparr>)
   \<and> fst (Material_get demo_engine idle_native demo_material ''shader'' started)
       \<noteq> Inr (JValue (prop_get demo_material ''shader''))
   \<and> native_log (snd (Material_get demo_engine idle_native demo_material ''shader'' started))
       \<noteq> native_log started"
  by (simp add: Material_get_def demo_material_definition demo_params property_read_def
        demo_material_own demo_material_index prop_get_def call_native_def idle_native_def)

section \<open>Destroying and comparing wrappers\<close>



lemma loose_eq_Id [simp]: "loose_eq (Id a) x = (x = Id a)"
  by (cases x) auto

text \<open>
  C9. \<^verbatim>\<open>Component.equals\<close> is true exactly when the argument is neither \<^verbatim>\<open>null\<close>
  nor \<^verbatim>\<open>undefined\<close> and the two \<^verbatim>\<open>_manager\<close> fields and the two \<^verbatim>\<open>_id\<close>
  fields are equal under \<^verbatim>\<open>==\<close>; \<^verbatim>\<open>$Object.equals\<close> likewise with \<^verbatim>\<open>objectId\<close>.
  Nothing else counts: wrappers that agree on these fields give the same answer whatever
  their other fields hold, and for a wrapper holding numbers the answer is equality of the
  numbers.
\<close>

theorem equals_by_handle:
  "Component_equals s a ob
     = (\<exists>b. ob = Some b
            \<and> loose_eq (c_manager (components s a)) (c_manager (components s b))
            \<and> loose_eq (c_id (components s a)) (c_id (components s b)))
   \<and> Object_equals s a ob
     = (\<exists>b. ob = Some b \<and> loose_eq (objectId (objects s a)) (objectId (objects s b)))
   \<and> (c_manager (components s' a') = c_manager (components s a)
        \<and> c_id (components s' a') = c_id (components s a)
        \<and> c_manager (components s' b') = c_manager (components s b)
        \<and> c_id (components s' b') = c_id (components s b)
      \<longrightarrow> Component_equals s' a' (Some b') = Component_equals s a (Some b))
   \<and> (c_manager (components s a) = Id m \<and> c_id (components s a) = Id i
      \<longrightarrow> Component_equals s a (Some b)
          = (c_manager (components s b) = Id m \<and> c_id (components s b) = Id i))
   \<and> (objectId (objects s a) = Id i
      \<longrightarrow> Object_equals s a (Some b) = (objectId (objects s b) = Id i))"
  by (cases ob) (auto simp: Component_equals_def Object_equals_def)

lemma mesh_wrappers_eval:
  "components mesh_wrappers 0 = \<lparr>c_manager = Id 2, c_id = Id 5, c_object = None,
      c_type = None, c_class = MeshComponent\<rparr>"
  "components mesh_wrappers 1 = \<lparr>c_manager = Id 2, c_id = Id 5, c_object = Some 7,
      c_type = Some ''mesh'', c_class = CustomComponent 0\<rparr>"
  "components mesh_wrappers 2 = \<lparr>c_manager = Id 2, c_id = Id 6, c_object = None,
      c_type = None, c_class = MeshComponent\<rparr>"
  "objects mesh_wrappers 0 = \<lparr>objectId = Id 3\<rparr>"
  "objects mesh_wrappers 1 = \<lparr>objectId = Id 3\<rparr>"
  "objects mesh_wrappers 2 = \<lparr>objectId = Id 4\<rparr>"
  "components mesh_wrappers (Suc 0) = \<lparr>c_manager = Id 2, c_id = Id 5, c_object = Some 7,
      c_type = Some ''mesh'', c_class = CustomComponent 0\<rparr>"
  "objects mesh_wrappers (Suc 0) = \<lparr>objectId = Id 3\<rparr>"
  by (simp_all add: mesh_wrappers_def)

theorem equals_by_handle_witness:
  "c_manager (components mesh_wrappers 1) = c_manager (components mesh_wrappers 0)
   \<and> c_id (components mesh_wrappers 1) = c_id (components mesh_wrappers 0)
   \<and> components mesh_wrappers 1 \<noteq> components mesh_wrappers 0
   \<and> Component_equals mesh_wrappers 1 (Some 1) = Component_equals mesh_wrappers 0 (Some 0)
   \<and> c_manager (components mesh_wrappers 0) = Id 2 \<and> c_id (components mesh_wrappers 0) = Id 5
   \<and> Component_equals mesh_wrappers 0 (Some 1)
   \<and> \<not> Component_equals mesh_wrappers 0 (Some 2)
   \<and> \<not> Component_equals mesh_wrappers 0 None
   \<and> objectId (objects mesh_wrappers 0) = Id 3
   \<and> Object_equals mesh_wrappers 0 (Some 1)
   \<and> \<not> Object_equals mesh_wrappers 0 (Some 2)"
  using equals_by_handle [where s = mesh_wrappers and a = 0 and ob = "Some 1"
          and s' = mesh_wrappers and a' = 1 and b' = 1 and b = 0 and m = 2 and i = 5]
        equals_by_handle [where s = mesh_wrappers and a = 0 and ob = "Some 2"
          and s' = mesh_wrappers and a' = 1 and b' = 1 and b = 1 and m = 2 and i = 5]
        equals_by_handle [where s = mesh_wrappers and a = 0 and ob = None
          and s' = mesh_wrappers and a' = 1 and b' = 1 and b = 2 and m = 2 and i = 5]
        equals_by_handle [where s = mesh_wrappers and a = 0 and ob = None
          and s' = mesh_wrappers and a' = 1 and b' = 1 and b = 1 and m = 2 and i = 3]
        equals_by_handle [where s = mesh_wrappers and a = 0 and ob = None
          and s' = mesh_wrappers and a' = 1 and b' = 1 and b = 2 and m = 2 and i = 3]
  by (simp add: mesh_wrappers_eval)

section \<open>Ray hit\<close>

text \<open>The constructor accepts exactly the pointers that are multiples of four.\<close>

lemma word_of_small_int_eq_0:
  assumes "0 \<le> q" "q < 4"
  shows "(word_of_int q :: 32 word) = 0 \<longleftrightarrow> q = 0"
proof
  assume "(word_of_int q :: 32 word) = 0"
  then have "(2::int) ^ 32 dvd q" by (simp add: word_of_int_eq_0_iff)
  then show "q = 0" using assms by (auto dest: zdvd_imp_le)
qed simp

lemma and_3_iff: "and (word_of_int p :: 32 word) 3 = 0 \<longleftrightarrow> p mod 4 = 0"
proof -
  have "and (word_of_int p :: 32 word) 3 = take_bit 2 (word_of_int p)"
    using take_bit_eq_mask [of 2 "word_of_int p :: 32 word"] by (simp add: mask_eq_exp_minus_1)
  also have "\<dots> = word_of_int (take_bit 2 p)"
    by (simp add: take_bit_of_int)
  finally have e: "and (word_of_int p :: 32 word) 3 = word_of_int (p mod 4)"
    by (simp add: take_bit_eq_mod)
  have "0 \<le> p mod 4" "p mod 4 < 4" by simp_all
  then have "(word_of_int (p mod 4) :: 32 word) = 0 \<longleftrightarrow> p mod 4 = 0"
    by (rule word_of_small_int_eq_0)
  then show ?thesis using e by simp
qed

lemma new_RayHit_aligned:
  "new_RayHit ptr = Inr this \<Longrightarrow> r_ptr this = ptr \<and> ptr mod 4 = 0"
  using and_3_iff [of ptr] by (auto simp: new_RayHit_def split: if_splits)

lemma new_RayHit_seven: "new_RayHit 256 = Inr seven_hits"
  using and_3_iff [of 256] by (simp add: new_RayHit_def seven_hits_def)

lemma hitCount_in_heap:
  assumes "hit_block_in_heap h this"
  shows "RayHit_hitCount h this = Some (min (unat (HEAPU32 h (nat (r_ptr this div 4 + 30)))) 4)"
proof -
  have "r_ptr this div 4 + 30 < int (heap_bytes h div 4)"
    using assms unfolding hit_block_in_heap_def by (simp add: zdiv_int) linarith
  moreover have "0 \<le> r_ptr this div 4 + 30"
    using assms unfolding hit_block_in_heap_def by presburger
  ultimately show ?thesis
    using assms by (simp add: RayHit_hitCount_def HEAPU32_hit_counter_def hit_block_in_heap_def)
qed

lemma hitCount_le_4: "RayHit_hitCount h this = Some n \<Longrightarrow> n \<le> 4"
  by (auto simp: RayHit_hitCount_def split: option.splits)

lemma new_view_in_block:
  assumes "p mod 4 = 0" "0 \<le> p" "p + 48 \<le> int (heap_bytes h)" "i < 4"
  shows "new_typed_array h Float32 (p + 12 * int i) 3
         = Inr \<lparr>byteOffset = p + 12 * int i, view_length = 3\<rparr>"
proof -
  have "(p + 12 * int i) mod 4 = 0" using assms(1) by presburger
  then show ?thesis using assms by (simp add: new_typed_array_def)
qed

lemma push_views_in_block:
  assumes "RayHit_hitCount h this = Some n"
    and "p mod 4 = 0" "0 \<le> p" "p + 48 \<le> int (heap_bytes h)"
  shows "i \<le> n \<Longrightarrow> push_views h this p i l
         = Inr (l @ map (\<lambda>j. \<lparr>byteOffset = p + 12 * int j, view_length = 3\<rparr>) [i..<n])"
proof (induction "n - i" arbitrary: i l)
  case 0
  then have "i = n" by simp
  then show ?case using assms(1) by (simp add: push_views.simps [of h this p n l])
next
  case (Suc k)
  then have lt: "i < n" by simp
  have n4: "n \<le> 4" using assms(1) by (rule hitCount_le_4)
  have v: "new_typed_array h Float32 (p + 12 * int i) 3
           = Inr \<lparr>byteOffset = p + 12 * int i, view_length = 3\<rparr>"
    using new_view_in_block [OF assms(2-4)] lt n4 by simp
  have "push_views h this p i l
        = push_views h this p (Suc i) (l @ [\<lparr>byteOffset = p + 12 * int i, view_length = 3\<rparr>])"
    using assms(1) lt v by (subst push_views.simps) simp
  also have "\<dots> = Inr ((l @ [\<lparr>byteOffset = p + 12 * int i, view_length = 3\<rparr>])
        @ map (\<lambda>j. \<lparr>byteOffset = p + 12 * int j, view_length = 3\<rparr>) [Suc i..<n])"
    using Suc.hyps(1) [of "Suc i"] Suc.hyps(2) lt by simp
  also have "\<dots> = Inr (l @ map (\<lambda>j. \<lparr>byteOffset = p + 12 * int j, view_length = 3\<rparr>) [i..<n])"
    using lt by (simp add: upt_conv_Cons)
  finally show ?case .
qed

text \<open>
  Outside the heap, or at a pointer that is not a multiple of four, the counter reads
  \<^verbatim>\<open>undefined\<close>, \<^verbatim>\<open>hitCount\<close> is \<^verbatim>\<open>NaN\<close> and both lists are empty.
\<close>

lemma rayhit_without_counter:
  assumes "HEAPU32_hit_counter h (r_ptr this) = None"
  shows "RayHit_hitCount h this = None \<and> RayHit_locations h this = Inr []
         \<and> RayHit_normals h this = Inr []"
  using assms
  by (simp add: RayHit_hitCount_def RayHit_locations_def RayHit_normals_def
        push_views.simps [of h this _ 0 "[]"])

text \<open>
  C10. For a \<^verbatim>\<open>RayHit\<close> whose hit block lies in the heap, whatever the block holds:
  \<^verbatim>\<open>hitCount\<close> is the minimum of the native counter and 4, so at most 4, and
  \<^verbatim>\<open>locations\<close> and \<^verbatim>\<open>normals\<close> each return exactly \<^verbatim>\<open>hitCount\<close> views of three
  floats, the \<open>j\<close>-th at byte \<open>12 * j\<close> of its array.
\<close>

theorem rayhit_counts:
  assumes "hit_block_in_heap h this"
  shows "\<exists>n. RayHit_hitCount h this = Some n
             \<and> n = min (unat (HEAPU32 h (nat (r_ptr this div 4 + 30)))) 4
             \<and> n \<le> 4
             \<and> RayHit_locations h this
                 = Inr (map (\<lambda>j. \<lparr>byteOffset = r_ptr this + 12 * int j, view_length = 3\<rparr>)
                            [0..<n])
             \<and> RayHit_normals h this
                 = Inr (map (\<lambda>j. \<lparr>byteOffset = r_ptr this + 48 + 12 * int j,
                                   view_length = 3\<rparr>) [0..<n])
             \<and> (\<exists>ls ns. RayHit_locations h this = Inr ls \<and> RayHit_normals h this = Inr ns
                         \<and> length ls = n \<and> length ns = n
                         \<and> list_all (\<lambda>v. view_length v = 3) (ls @ ns))"
proof -
  let ?n = "min (unat (HEAPU32 h (nat (r_ptr this div 4 + 30)))) 4"
  have hc: "RayHit_hitCount h this = Some ?n" using assms by (rule hitCount_in_heap)
  have a: "r_ptr this mod 4 = 0" "0 \<le> r_ptr this" "r_ptr this + 48 \<le> int (heap_bytes h)"
    and b: "(r_ptr this + 48) mod 4 = 0" "0 \<le> r_ptr this + 48"
      "r_ptr this + 48 + 48 \<le> int (heap_bytes h)"
    using assms unfolding hit_block_in_heap_def by presburger+
  have l: "RayHit_locations h this
           = Inr (map (\<lambda>j. \<lparr>byteOffset = r_ptr this + 12 * int j, view_length = 3\<rparr>) [0..<?n])"
    unfolding RayHit_locations_def using push_views_in_block [OF hc a, of 0 "[]"] by simp
  have m: "RayHit_normals h this
           = Inr (map (\<lambda>j. \<lparr>byteOffset = r_ptr this + 48 + 12 * int j, view_length = 3\<rparr>)
                      [0..<?n])"
    unfolding RayHit_normals_def using push_views_in_block [OF hc b, of 0 "[]"] by simp
  show ?thesis
    using hc l m by (auto simp: list_all_iff)
qed

lemma hit_block_seven: "hit_block_in_heap hit_heap seven_hits"
  by (simp add: hit_block_in_heap_def hit_heap_def seven_hits_def)

theorem rayhit_counts_witness:
  "hit_block_in_heap hit_heap seven_hits
   \<and> RayHit_hitCount hit_heap seven_hits = Some 4
   \<and> RayHit_locations hit_heap seven_hits
       = Inr [\<lparr>byteOffset = 256, view_length = 3\<rparr>, \<lparr>byteOffset = 268, view_length = 3\<rparr>,
              \<lparr>byteOffset = 280, view_length = 3\<rparr>, \<lparr>byteOffset = 292, view_length = 3\<rparr>]
   \<and> RayHit_normals hit_heap seven_hits
       = Inr [\<lparr>byteOffset = 304, view_length = 3\<rparr>, \<lparr>byteOffset = 316, view_length = 3\<rparr>,
              \<lparr>byteOffset = 328, view_length = 3\<rparr>, \<lparr>byteOffset = 340, view_length = 3\<rparr>]"
proof -
  have u: "[0..<4] = [0, 1, 2, 3::nat]" by (simp add: upt_rec)
  show ?thesis
    using rayhit_counts [OF hit_block_seven] hit_block_seven
    by (simp add: hit_heap_def seven_hits_def u)
qed

end
